theory Spec2Isabelle
  imports Main
begin

section \<open>Data model\<close>

text \<open>
  The document routes of the portal (\<^verbatim>\<open>api/src/routes/documents.ts\<close>) and the gateway
  client they call (\<^verbatim>\<open>lib/truuth\<close>). The Prisma enums \<^verbatim>\<open>DocumentType\<close> and
  \<^verbatim>\<open>DocumentStatus\<close> are datatypes; a row of the \<^verbatim>\<open>document\<close> table is a record.
  The columns \<^verbatim>\<open>createdAt\<close> and \<^verbatim>\<open>updatedAt\<close> are maintained by the database layer
  and never written by the routes; they are not part of the row below. Every store
  access and every call of an external capability is recorded in an event log, so that
  "no write happened" and "submit was not called" are statements about the log.
\<close>

datatype DocumentType = PASSPORT | DRIVERS_LICENCE | RESUME

datatype DocumentStatus =
  PENDING | CLASSIFYING | CLASSIFICATION_FAILED | SUBMITTING | PROCESSING | DONE | FAILED

text \<open>\<^verbatim>\<open>ClassificationResult\<close>: both entries are optional, each a code and a name.\<close>

record CodeName =
  code :: string
  name :: string

record ClassificationResult =
  cls_country :: "CodeName option"
  cls_documentType :: "CodeName option"

record VerifySubmitResult =
  sr_documentVerifyId :: string
  sr_status :: string

text \<open>
  \<^verbatim>\<open>VerifyStatusResult\<close>: the status is one of three literals; the index signature
  (\<^verbatim>\<open>[key: string]: unknown\<close>) is the list of remaining entries.
\<close>

datatype VerifyStatus = V_PROCESSING | V_DONE | V_FAILED

record VerifyStatusResult =
  vr_documentVerifyId :: string
  vr_status :: VerifyStatus
  vr_rest :: "(string \<times> string) list"

text \<open>
  The JSON column \<^verbatim>\<open>verificationResult\<close> holds either the object the poll call
  returned or an object literal written by the route.
\<close>

datatype VerificationJson =
  FromVerify VerifyStatusResult
| ObjectLiteral "(string \<times> string) list"

fun verifyStatusName :: "VerifyStatus \<Rightarrow> string" where
  "verifyStatusName V_PROCESSING = ''PROCESSING''"
| "verifyStatusName V_DONE = ''DONE''"
| "verifyStatusName V_FAILED = ''FAILED''"

text \<open>The \<^verbatim>\<open>status\<close> entry of a stored verification payload.\<close>

fun payloadStatus :: "VerificationJson \<Rightarrow> string option" where
  "payloadStatus (FromVerify r) = Some (verifyStatusName (vr_status r))"
| "payloadStatus (ObjectLiteral kvs) = map_of kvs ''status''"

record Document =
  docId :: string
  userId :: string
  documentType :: DocumentType
  fileName :: string
  mimeType :: string
  status :: DocumentStatus
  documentVerifyId :: "string option"
  verificationResult :: "VerificationJson option"
  classificationResult :: "ClassificationResult option"
  errorMessage :: "string option"

text \<open>
  The file part of an upload request, which is also the file multer hands to the handler
  when it accepts the request, and the request body's one field.
\<close>

record UploadedFile =
  originalname :: string
  mimetype :: string
  fileSize :: nat
  buffer :: string

record UploadRequest =
  req_file :: "UploadedFile option"
  body_documentType :: "string option"

subsection \<open>Responses\<close>

record DocumentSummary =
  sum_id :: "string option"
  sum_documentType :: "DocumentType option"
  sum_fileName :: "string option"
  sum_status :: "DocumentStatus option"
  sum_documentVerifyId :: "string option"

text \<open>The \<^verbatim>\<open>select\<close> of the result route (timestamps apart).\<close>

record ResultDocument =
  res_id :: string
  res_documentType :: DocumentType
  res_fileName :: string
  res_status :: DocumentStatus
  res_verificationResult :: "VerificationJson option"
  res_classificationResult :: "ClassificationResult option"

datatype Body =
  ErrorBody string
| ClassificationErrorBody string ClassificationResult
| UploadedBody string DocumentSummary
| StatusBody string DocumentStatus bool
| ResultBody ResultDocument

record Response =
  httpStatus :: nat
  body :: Body

definition respond :: "nat \<Rightarrow> Body \<Rightarrow> Response" where
  "respond c b = \<lparr>httpStatus = c, body = b\<rparr>"

subsection \<open>The world: store and event log\<close>

datatype Event =
  DbFindUnique
| DbFindFirst
| DbUpsert string
| DbUpdate string
| CallClassify string string
| CallSubmit string string string string string
| CallPoll string

fun isWrite :: "Event \<Rightarrow> bool" where
  "isWrite (DbUpsert _) = True"
| "isWrite (DbUpdate _) = True"
| "isWrite _ = False"

fun isSubmit :: "Event \<Rightarrow> bool" where
  "isSubmit (CallSubmit _ _ _ _ _) = True"
| "isSubmit _ = False"

record World =
  rows :: "Document list"
  events :: "Event list"

definition logEvent :: "Event \<Rightarrow> World \<Rightarrow> World" where
  "logEvent e w = w\<lparr>events := events w @ [e]\<rparr>"

text \<open>
  What the routes cannot decide themselves: the outcome of the three HTTP exchanges of
  the gateway client (\<open>Inl\<close> is the thrown error), the identifier the database gives a
  new row, and Node's base64 encoding of the file buffer.
\<close>

record Env =
  newId :: string
  toBase64 :: "string \<Rightarrow> string"
  classifyDocument :: "string \<Rightarrow> string \<Rightarrow> string + ClassificationResult"
  submitForVerification ::
    "string \<Rightarrow> string \<Rightarrow> string \<Rightarrow> string \<Rightarrow> string \<Rightarrow> string + VerifySubmitResult"
  getVerificationResult :: "string \<Rightarrow> string + VerifyStatusResult"

section \<open>Store operations\<close>

definition ownedBy :: "string \<Rightarrow> DocumentType \<Rightarrow> Document \<Rightarrow> bool" where
  "ownedBy uid dt d = (userId d = uid \<and> documentType d = dt)"

text \<open>\<^verbatim>\<open>findUnique({where: {userId_documentType: ...}})\<close>\<close>

definition findUnique :: "string \<Rightarrow> DocumentType \<Rightarrow> World \<Rightarrow> Document option \<times> World" where
  "findUnique uid dt w = (find (ownedBy uid dt) (rows w), logEvent DbFindUnique w)"

text \<open>\<^verbatim>\<open>findUnique({where: {id}})\<close>\<close>

definition findUniqueById :: "string \<Rightarrow> World \<Rightarrow> Document option \<times> World" where
  "findUniqueById i w = (find (\<lambda>d. docId d = i) (rows w), logEvent DbFindUnique w)"

text \<open>\<^verbatim>\<open>findFirst({where: {id, userId}})\<close>\<close>

definition findFirst :: "string \<Rightarrow> string \<Rightarrow> World \<Rightarrow> Document option \<times> World" where
  "findFirst i uid w = (find (\<lambda>d. docId d = i \<and> userId d = uid) (rows w), logEvent DbFindFirst w)"

text \<open>
  \<^verbatim>\<open>update({where: {id}, data})\<close>: the patch is applied to the row with that
  identifier. In every route the identifier comes from a row read or upserted earlier
  in the same request, so the row exists.
\<close>

definition dbUpdate :: "string \<Rightarrow> (Document \<Rightarrow> Document) \<Rightarrow> World \<Rightarrow> World" where
  "dbUpdate i patch w =
     logEvent (DbUpdate i) (w\<lparr>rows := map (\<lambda>d. if docId d = i then patch d else d) (rows w)\<rparr>)"

text \<open>
  \<^verbatim>\<open>upsert({where: {userId_documentType}, update, create})\<close>: patches the row of
  the pair when there is one, otherwise appends the new row; returns the row.
\<close>

definition dbUpsert ::
  "string \<Rightarrow> DocumentType \<Rightarrow> (Document \<Rightarrow> Document) \<Rightarrow> Document \<Rightarrow> World \<Rightarrow> Document \<times> World" where
  "dbUpsert uid dt patch new w =
     (case find (ownedBy uid dt) (rows w) of
        Some d \<Rightarrow>
          (patch d,
           logEvent (DbUpsert (docId d))
             (w\<lparr>rows := map (\<lambda>r. if ownedBy uid dt r then patch r else r) (rows w)\<rparr>))
      | None \<Rightarrow>
          (new, logEvent (DbUpsert (docId new)) (w\<lparr>rows := rows w @ [new]\<rparr>)))"

text \<open>
  Modelled from the spec: the Prisma schema is not part of the sources. A created row
  has the given fields; its identifier is the one the database assigns, and the
  optional columns the \<^verbatim>\<open>create\<close> clause does not mention are absent
  (spec: \<^verbatim>\<open>externalVerificationId\<close> "absent until then", the payloads "optional",
  \<^verbatim>\<open>errorMessage\<close> "set only in failure states").
\<close>

definition createRow ::
  "Env \<Rightarrow> string \<Rightarrow> DocumentType \<Rightarrow> string \<Rightarrow> string \<Rightarrow> DocumentStatus \<Rightarrow> Document" where
  "createRow env uid dt fname mime st =
     \<lparr>docId = newId env, userId = uid, documentType = dt, fileName = fname, mimeType = mime,
      status = st, documentVerifyId = None, verificationResult = None,
      classificationResult = None, errorMessage = None\<rparr>"

section \<open>Gateway client: the classification rules\<close>

definition isValidPhilippinesPassport :: "ClassificationResult \<Rightarrow> bool" where
  "isValidPhilippinesPassport result =
     (map_option code (cls_country result) = Some ''PHL'' \<and>
      map_option code (cls_documentType result) = Some ''PASSPORT'')"

definition isValidPhilippinesDriversLicence :: "ClassificationResult \<Rightarrow> bool" where
  "isValidPhilippinesDriversLicence result =
     (map_option code (cls_country result) = Some ''PHL'' \<and>
      map_option code (cls_documentType result) = Some ''DRIVERS_LICENCE'')"

section \<open>Route helpers\<close>

text \<open>\<^verbatim>\<open>x?.f || dflt\<close>: an absent entry and an empty string both give the default.\<close>

definition orDefault :: "string option \<Rightarrow> string \<Rightarrow> string" where
  "orDefault v dflt = (case v of None \<Rightarrow> dflt | Some s \<Rightarrow> if s = [] then dflt else s)"

definition getDocumentDescription :: "ClassificationResult \<Rightarrow> string" where
  "getDocumentDescription classification =
     (let country = orDefault (map_option name (cls_country classification)) ''Unknown Country'';
          docType = orDefault (map_option name (cls_documentType classification)) ''Unknown Document''
      in country @ '' '' @ docType)"

fun documentTypeName :: "DocumentType \<Rightarrow> string" where
  "documentTypeName PASSPORT = ''PASSPORT''"
| "documentTypeName DRIVERS_LICENCE = ''DRIVERS_LICENCE''"
| "documentTypeName RESUME = ''RESUME''"

text \<open>
  \<^verbatim>\<open>!documentType || ![...].includes(documentType)\<close>: an absent field and every string
  other than the three names are refused.
\<close>

definition parseDocumentType :: "string option \<Rightarrow> DocumentType option" where
  "parseDocumentType v =
     (case v of
        None \<Rightarrow> None
      | Some s \<Rightarrow>
          if s = ''PASSPORT'' then Some PASSPORT
          else if s = ''DRIVERS_LICENCE'' then Some DRIVERS_LICENCE
          else if s = ''RESUME'' then Some RESUME
          else None)"

definition isIdDocument :: "DocumentType \<Rightarrow> bool" where
  "isIdDocument docType = (docType = PASSPORT \<or> docType = DRIVERS_LICENCE)"

definition imageMimes :: "string list" where
  "imageMimes = [''image/jpeg'', ''image/png'', ''image/jpg'']"

definition summaryOf :: "Document option \<Rightarrow> DocumentSummary" where
  "summaryOf updatedDoc =
     \<lparr>sum_id = map_option docId updatedDoc,
      sum_documentType = map_option documentType updatedDoc,
      sum_fileName = map_option fileName updatedDoc,
      sum_status = map_option status updatedDoc,
      sum_documentVerifyId = Option.bind updatedDoc documentVerifyId\<rparr>"

text \<open>The summary of the skipped-resume response has no \<^verbatim>\<open>documentVerifyId\<close> entry.\<close>

definition summaryWithoutVerifyId :: "Document option \<Rightarrow> DocumentSummary" where
  "summaryWithoutVerifyId updatedDoc = (summaryOf updatedDoc)\<lparr>sum_documentVerifyId := None\<rparr>"

text \<open>
  \<^verbatim>\<open>submitDocumentForVerification\<close>: the result is the error it rethrows, if any.
\<close>

definition submitDocumentForVerification ::
  "Env \<Rightarrow> string \<Rightarrow> string \<Rightarrow> string \<Rightarrow> string \<Rightarrow> string \<Rightarrow> World \<Rightarrow> string option \<times> World" where
  "submitDocumentForVerification env documentId base64Image mime countryCode docTypeCode w =
     (let w1 = dbUpdate documentId (\<lambda>d. d\<lparr>status := SUBMITTING\<rparr>) w;
          externalRefId = ''doc-'' @ documentId;
          w2 = logEvent (CallSubmit base64Image mime countryCode docTypeCode externalRefId) w1
      in case submitForVerification env base64Image mime countryCode docTypeCode externalRefId of
           Inr result \<Rightarrow>
             (None,
              dbUpdate documentId
                (\<lambda>d. d\<lparr>status := PROCESSING,
                        documentVerifyId := Some (sr_documentVerifyId result)\<rparr>) w2)
         | Inl err \<Rightarrow>
             (Some err,
              dbUpdate documentId
                (\<lambda>d. d\<lparr>status := FAILED,
                        errorMessage :=
                          Some ''Failed to submit document for verification. Please try again.''\<rparr>)
                w2))"

section \<open>POST /upload\<close>

text \<open>The \<^verbatim>\<open>catch (classifyError)\<close> block of the classify branch.\<close>

definition classifyCatch :: "string \<Rightarrow> World \<Rightarrow> Response \<times> World" where
  "classifyCatch documentId w =
     (respond 400
        (ErrorBody ''We couldn't verify the document type. Please ensure the image is clear and shows the full document.''),
      dbUpdate documentId
        (\<lambda>d. d\<lparr>status := CLASSIFICATION_FAILED,
                errorMessage :=
                  Some ''Unable to classify the document. Please ensure the image is clear and try again.''\<rparr>)
        w)"

text \<open>
  The validation block of the classify branch: \<^verbatim>\<open>isValid\<close> and \<^verbatim>\<open>expectedType\<close>
  start as \<^verbatim>\<open>false\<close> and the empty string and are set by category.
\<close>

definition classificationCheck :: "DocumentType \<Rightarrow> ClassificationResult \<Rightarrow> bool \<times> string" where
  "classificationCheck docType classification =
     (if docType = PASSPORT
      then (isValidPhilippinesPassport classification, ''Philippines Passport'')
      else if docType = DRIVERS_LICENCE
      then (isValidPhilippinesDriversLicence classification, ''Philippines Driver's Licence'')
      else (False, ''''))"

text \<open>
  Passport and driver's licence: upsert as \<^verbatim>\<open>CLASSIFYING\<close>, classify, store the
  classification, validate it, submit. The \<^verbatim>\<open>try\<close> block covers the classify call,
  the validation and the submission, so an error rethrown by
  \<^verbatim>\<open>submitDocumentForVerification\<close> lands in the same \<^verbatim>\<open>catch\<close>.
\<close>

definition classifyBranch ::
  "Env \<Rightarrow> string \<Rightarrow> DocumentType \<Rightarrow> UploadedFile \<Rightarrow> string \<Rightarrow> World \<Rightarrow> Response \<times> World" where
  "classifyBranch env uid docType f base64Image w =
     (let mime = mimetype f;
          (document, w1) =
            dbUpsert uid docType
              (\<lambda>d. d\<lparr>fileName := originalname f, mimeType := mime, status := CLASSIFYING,
                      errorMessage := None, documentVerifyId := None,
                      verificationResult := None, classificationResult := None\<rparr>)
              (createRow env uid docType (originalname f) mime CLASSIFYING) w;
          w2 = logEvent (CallClassify base64Image mime) w1
      in case classifyDocument env base64Image mime of
           Inl err \<Rightarrow> classifyCatch (docId document) w2
         | Inr classification \<Rightarrow>
             (let w3 = dbUpdate (docId document)
                         (\<lambda>d. d\<lparr>classificationResult := Some classification\<rparr>) w2;
                  (isValid, expectedType) = classificationCheck docType classification
              in if \<not> isValid then
                   (let detectedType = getDocumentDescription classification
                    in (respond 400
                          (ClassificationErrorBody
                             (''Invalid document type. Expected '' @ expectedType @
                              '' but detected '' @ detectedType @
                              ''. Please upload the correct document.'')
                             classification),
                        dbUpdate (docId document)
                          (\<lambda>d. d\<lparr>status := CLASSIFICATION_FAILED,
                                  errorMessage :=
                                    Some (''The uploaded document appears to be a '' @ detectedType @
                                          ''. Please upload a valid '' @ expectedType @ ''.'')\<rparr>)
                          w3))
                 else
                   (case submitDocumentForVerification env (docId document) base64Image mime
                           (orDefault (map_option code (cls_country classification)) ''PHL'')
                           (orDefault (map_option code (cls_documentType classification))
                              (documentTypeName docType))
                           w3 of
                      (Some err, w4) \<Rightarrow> classifyCatch (docId document) w4
                    | (None, w4) \<Rightarrow>
                        (let (updatedDoc, w5) = findUniqueById (docId document) w4
                         in (respond 200
                               (UploadedBody ''Document uploaded and submitted for verification''
                                  (summaryOf updatedDoc)),
                             w5)))))"

text \<open>
  Resume: upsert as \<^verbatim>\<open>SUBMITTING\<close> and submit; when the submission throws, the
  \<^verbatim>\<open>catch\<close> marks the row \<^verbatim>\<open>DONE\<close> with a payload saying verification was skipped.
\<close>

definition resumeBranch ::
  "Env \<Rightarrow> string \<Rightarrow> DocumentType \<Rightarrow> UploadedFile \<Rightarrow> string \<Rightarrow> World \<Rightarrow> Response \<times> World" where
  "resumeBranch env uid docType f base64Image w =
     (let mime = mimetype f;
          (document, w1) =
            dbUpsert uid docType
              (\<lambda>d. d\<lparr>fileName := originalname f, mimeType := mime, status := SUBMITTING,
                      errorMessage := None, documentVerifyId := None,
                      verificationResult := None\<rparr>)
              (createRow env uid docType (originalname f) mime SUBMITTING) w
      in case submitDocumentForVerification env (docId document) base64Image mime
                ''PHL'' ''OTHER'' w1 of
           (None, w2) \<Rightarrow>
             (let (updatedDoc, w3) = findUniqueById (docId document) w2
              in (respond 200
                    (UploadedBody ''Resume uploaded and submitted for verification''
                       (summaryOf updatedDoc)),
                  w3))
         | (Some err, w2) \<Rightarrow>
             (let w3 = dbUpdate (docId document)
                         (\<lambda>d. d\<lparr>status := DONE,
                                 verificationResult :=
                                   Some (ObjectLiteral
                                     [(''status'', ''SKIPPED''),
                                      (''message'', ''Resume verification is not required'')])\<rparr>)
                         w2;
                  (updatedDoc, w4) = findUniqueById (docId document) w3
              in (respond 200
                    (UploadedBody ''Resume uploaded successfully''
                       (summaryWithoutVerifyId updatedDoc)),
                  w4)))"

text \<open>
  The handler of \<^verbatim>\<open>POST /upload\<close>, for the authenticated user \<open>uid\<close>: the four
  validations, the lookup of the existing row with its \<^verbatim>\<open>DONE\<close> gate, then one of the
  two branches.
\<close>

definition uploadHandler :: "Env \<Rightarrow> string \<Rightarrow> UploadRequest \<Rightarrow> World \<Rightarrow> Response \<times> World" where
  "uploadHandler env uid req w =
     (case req_file req of
        None \<Rightarrow> (respond 400 (ErrorBody ''Please select a file to upload''), w)
      | Some f \<Rightarrow>
          (case parseDocumentType (body_documentType req) of
             None \<Rightarrow> (respond 400 (ErrorBody ''Invalid document type''), w)
           | Some docType \<Rightarrow>
               if isIdDocument docType \<and> mimetype f \<notin> set imageMimes then
                 (respond 400
                    (ErrorBody ''Passport and Driver's Licence must be uploaded as JPEG or PNG images. PDF files are not supported for ID documents.''),
                  w)
               else if isIdDocument docType \<and> fileSize f > 5 * 1024 * 1024 then
                 (respond 400
                    (ErrorBody ''Image file is too large. Please upload an image smaller than 5MB.''),
                  w)
               else
                 (let (existingDoc, w1) = findUnique uid docType w
                  in if (case existingDoc of None \<Rightarrow> False | Some d \<Rightarrow> status d = DONE) then
                       (respond 409
                          (ErrorBody ''This document type has already been verified. Please contact support if you need to re-submit.''),
                        w1)
                     else
                       (let base64Image = toBase64 env (buffer f)
                        in if isIdDocument docType
                           then classifyBranch env uid docType f base64Image w1
                           else resumeBranch env uid docType f base64Image w1))))"

section \<open>GET /:documentId/status\<close>

fun toDocumentStatus :: "VerifyStatus \<Rightarrow> DocumentStatus" where
  "toDocumentStatus V_PROCESSING = PROCESSING"
| "toDocumentStatus V_DONE = DONE"
| "toDocumentStatus V_FAILED = FAILED"

text \<open>The response after the polling block: the state that was read from the store.\<close>

definition currentStatus :: "Document \<Rightarrow> Response" where
  "currentStatus document =
     respond 200
       (StatusBody (docId document) (status document)
          (status document = DONE \<or> status document = FAILED))"

text \<open>
  The poll is made when the row is \<^verbatim>\<open>PROCESSING\<close> and its \<^verbatim>\<open>documentVerifyId\<close> is
  truthy (present and not the empty string). A terminal answer is stored and reported;
  any other answer, and a thrown error, fall through to the stored state.
\<close>

definition statusHandler :: "Env \<Rightarrow> string \<Rightarrow> string \<Rightarrow> World \<Rightarrow> Response \<times> World" where
  "statusHandler env uid documentId w =
     (let (found, w1) = findFirst documentId uid w
      in case found of
           None \<Rightarrow> (respond 404 (ErrorBody ''Document not found''), w1)
         | Some document \<Rightarrow>
             (case documentVerifyId document of
                Some verifyId \<Rightarrow>
                  if status document = PROCESSING \<and> verifyId \<noteq> [] then
                    (let w2 = logEvent (CallPoll verifyId) w1
                     in case getVerificationResult env verifyId of
                          Inr result \<Rightarrow>
                            if vr_status result = V_DONE \<or> vr_status result = V_FAILED then
                              (respond 200
                                 (StatusBody (docId document)
                                    (toDocumentStatus (vr_status result)) True),
                               dbUpdate (docId document)
                                 (\<lambda>d. d\<lparr>status := toDocumentStatus (vr_status result),
                                         verificationResult := Some (FromVerify result)\<rparr>)
                                 w2)
                            else (currentStatus document, w2)
                        | Inl pollError \<Rightarrow> (currentStatus document, w2))
                  else (currentStatus document, w1)
              | None \<Rightarrow> (currentStatus document, w1)))"

section \<open>GET /:documentId/result\<close>

definition selectResult :: "Document \<Rightarrow> ResultDocument" where
  "selectResult d =
     \<lparr>res_id = docId d, res_documentType = documentType d, res_fileName = fileName d,
      res_status = status d, res_verificationResult = verificationResult d,
      res_classificationResult = classificationResult d\<rparr>"

definition resultHandler :: "string \<Rightarrow> string \<Rightarrow> World \<Rightarrow> Response \<times> World" where
  "resultHandler uid documentId w =
     (let (found, w1) = findFirst documentId uid w
      in case found of
           None \<Rightarrow> (respond 404 (ErrorBody ''Document not found''), w1)
         | Some document \<Rightarrow>
             if status document \<noteq> DONE \<and> status document \<noteq> FAILED then
               (respond 400 (ErrorBody ''Verification is still in progress''), w1)
             else (respond 200 (ResultBody (selectResult document)), w1))"

section \<open>The upload route: multer and the error handler\<close>

text \<open>
  The route is \<^verbatim>\<open>authenticateToken, upload.single('file'), handler\<close>. The multer
  instance is configured in \<^verbatim>\<open>documents.ts\<close> with a size limit of 10MB and a file
  filter; the error middleware is \<^verbatim>\<open>middleware/errorHandler\<close>, registered after the
  routes. What multer and Express do with them is library behaviour: multer calls the
  filter for the file part; an error the filter passes to its callback, like the error
  multer raises itself when the part is larger than \<^verbatim>\<open>limits.fileSize\<close>, is handed to
  \<^verbatim>\<open>next\<close>, so the handler is skipped and the error middleware answers. A request
  without a file part passes through with \<^verbatim>\<open>req.file\<close> undefined.
\<close>

definition allowedMimes :: "string list" where
  "allowedMimes = [''image/jpeg'', ''image/png'', ''image/jpg'', ''application/pdf'']"

definition fileSizeLimit :: nat where
  "fileSizeLimit = 10 * 1024 * 1024"

text \<open>The \<^verbatim>\<open>fileFilter\<close> option: the error passed to the callback, if any.\<close>

definition fileFilter :: "UploadedFile \<Rightarrow> string option" where
  "fileFilter f =
     (if mimetype f \<in> set allowedMimes then None
      else Some ''Invalid file type. Only JPEG, PNG, and PDF files are allowed.'')"

text \<open>
  \<^verbatim>\<open>upload.single('file')\<close>: \<open>Inl\<close> is the error given to \<^verbatim>\<open>next\<close>, \<open>Inr\<close> the
  request as the handler receives it. The filter sees the part before its content is
  read, so it comes before the size limit.
\<close>

definition uploadSingle :: "UploadRequest \<Rightarrow> string + UploadRequest" where
  "uploadSingle req =
     (case req_file req of
        None \<Rightarrow> Inr req
      | Some f \<Rightarrow>
          (case fileFilter f of
             Some err \<Rightarrow> Inl err
           | None \<Rightarrow> if fileSize f > fileSizeLimit then Inl ''File too large'' else Inr req))"

text \<open>
  \<^verbatim>\<open>errorHandler\<close>: always status 500; the message is the error's own unless
  \<^verbatim>\<open>NODE_ENV\<close> is \<^verbatim>\<open>production\<close>.
\<close>

definition errorHandler :: "bool \<Rightarrow> string \<Rightarrow> Response" where
  "errorHandler production errMessage =
     respond 500
       (ErrorBody (if production then ''An unexpected error occurred. Please try again.''
                   else errMessage))"

text \<open>\<^verbatim>\<open>POST /upload\<close> for the authenticated user \<open>uid\<close>: multer, then the handler.\<close>

definition uploadRoute ::
  "bool \<Rightarrow> Env \<Rightarrow> string \<Rightarrow> UploadRequest \<Rightarrow> World \<Rightarrow> Response \<times> World" where
  "uploadRoute production env uid req w =
     (case uploadSingle req of
        Inl err \<Rightarrow> (errorHandler production err, w)
      | Inr req' \<Rightarrow> uploadHandler env uid req' w)"

section \<open>Requests, runs and sample inputs\<close>

text \<open>The events one request adds to the log: those after the log it started from.\<close>

definition requestEvents :: "World \<Rightarrow> World \<Rightarrow> Event list" where
  "requestEvents w w' = drop (length (events w)) (events w')"

text \<open>
  A run of status requests for one document by one user, one environment per request
  (the external service may answer differently each time).
\<close>

fun statusRequests :: "Env list \<Rightarrow> string \<Rightarrow> string \<Rightarrow> World \<Rightarrow> Response list \<times> World" where
  "statusRequests [] uid documentId w = ([], w)"
| "statusRequests (env # envs) uid documentId w =
     (let (r, w1) = statusHandler env uid documentId w;
          (rs, w2) = statusRequests envs uid documentId w1
      in (r # rs, w2))"

text \<open>Concrete inputs on which the theorems below are instantiated.\<close>

definition offlineEnv :: Env where
  "offlineEnv =
     \<lparr>newId = ''doc1'', toBase64 = (\<lambda>b. b),
      classifyDocument = (\<lambda>_ _. Inl ''Classification failed: 503''),
      submitForVerification = (\<lambda>_ _ _ _ _. Inl ''Verification submission failed: 503''),
      getVerificationResult = (\<lambda>_. Inl ''Failed to get verification result: 503'')\<rparr>"

definition onlineEnv :: "ClassificationResult \<Rightarrow> VerifyStatus \<Rightarrow> Env" where
  "onlineEnv c st =
     \<lparr>newId = ''doc1'', toBase64 = (\<lambda>b. b),
      classifyDocument = (\<lambda>_ _. Inr c),
      submitForVerification =
        (\<lambda>_ _ _ _ _. Inr \<lparr>sr_documentVerifyId = ''v1'', sr_status = ''PROCESSING''\<rparr>),
      getVerificationResult =
        (\<lambda>v. Inr \<lparr>vr_documentVerifyId = v, vr_status = st, vr_rest = []\<rparr>)\<rparr>"

definition phlPassport :: ClassificationResult where
  "phlPassport =
     \<lparr>cls_country = Some \<lparr>code = ''PHL'', name = ''Philippines''\<rparr>,
      cls_documentType = Some \<lparr>code = ''PASSPORT'', name = ''Passport''\<rparr>\<rparr>"

definition jpegFile :: UploadedFile where
  "jpegFile = \<lparr>originalname = ''scan.jpg'', mimetype = ''image/jpeg'', fileSize = 2048, buffer = ''img''\<rparr>"

definition pdfFile :: UploadedFile where
  "pdfFile = \<lparr>originalname = ''cv.pdf'', mimetype = ''application/pdf'', fileSize = 4096, buffer = ''pdf''\<rparr>"

definition gifFile :: UploadedFile where
  "gifFile = \<lparr>originalname = ''scan.gif'', mimetype = ''image/gif'', fileSize = 2048, buffer = ''gif''\<rparr>"

definition hugeJpegFile :: UploadedFile where
  "hugeJpegFile =
     \<lparr>originalname = ''huge.jpg'', mimetype = ''image/jpeg'', fileSize = 11 * 1024 * 1024,
      buffer = ''img''\<rparr>"

definition uploadOf :: "UploadedFile \<Rightarrow> string \<Rightarrow> UploadRequest" where
  "uploadOf f t = \<lparr>req_file = Some f, body_documentType = Some t\<rparr>"

definition emptyWorld :: World where
  "emptyWorld = \<lparr>rows = [], events = []\<rparr>"

definition sampleDoc :: "string \<Rightarrow> string \<Rightarrow> DocumentType \<Rightarrow> DocumentStatus \<Rightarrow> Document" where
  "sampleDoc i uid dt st =
     \<lparr>docId = i, userId = uid, documentType = dt, fileName = ''scan.jpg'', mimeType = ''image/jpeg'',
      status = st, documentVerifyId = None, verificationResult = None,
      classificationResult = None, errorMessage = None\<rparr>"

definition processingDoc :: Document where
  "processingDoc = (sampleDoc ''doc7'' ''alice'' PASSPORT PROCESSING)\<lparr>documentVerifyId := Some ''v7''\<rparr>"

definition worldOf :: "Document list \<Rightarrow> World" where
  "worldOf ds = \<lparr>rows = ds, events = []\<rparr>"

text \<open>
  The identifier of the row an upload's upsert returns: that of the existing row of the
  pair, otherwise the one the database assigns.
\<close>

definition upsertId :: "Env \<Rightarrow> string \<Rightarrow> DocumentType \<Rightarrow> World \<Rightarrow> string" where
  "upsertId env uid dt w =
     (case find (ownedBy uid dt) (rows w) of Some d \<Rightarrow> docId d | None \<Rightarrow> newId env)"

text \<open>
  The terminal states as the specification's glossary lists them; the routes have no
  such predicate, it is used only to compare the result route's gate with the glossary.
\<close>

definition specTerminal :: "DocumentStatus \<Rightarrow> bool" where
  "specTerminal st = (st = DONE \<or> st = FAILED \<or> st = CLASSIFICATION_FAILED)"

section \<open>Store lemmas\<close>

lemma find_map_same:
  assumes "\<And>x. P (g x) = P x"
  shows "find P (map g xs) = map_option g (find P xs)"
  by (induction xs) (simp_all add: assms)

lemma find_snoc:
  "find P (xs @ [y]) = (case find P xs of Some x \<Rightarrow> Some x | None \<Rightarrow> if P y then Some y else None)"
  by (induction xs) simp_all

lemma rows_logEvent [simp]: "rows (logEvent e w) = rows w"
  by (simp add: logEvent_def)

lemma events_logEvent [simp]: "events (logEvent e w) = events w @ [e]"
  by (simp add: logEvent_def)

lemma rows_dbUpdate: "rows (dbUpdate i p w) = map (\<lambda>d. if docId d = i then p d else d) (rows w)"
  by (simp add: dbUpdate_def)

lemma events_dbUpdate [simp]: "events (dbUpdate i p w) = events w @ [DbUpdate i]"
  by (simp add: dbUpdate_def)

lemma requestEvents_append [simp]: "events w' = events w @ es \<Longrightarrow> requestEvents w w' = es"
  by (simp add: requestEvents_def)

text \<open>A patch by identifier that keeps the searched key rewrites the row that is found.\<close>

lemma find_dbUpdate:
  assumes "find P (rows w) = Some d" and "\<And>x. P (p x) = P x"
  shows "find P (rows (dbUpdate (docId d) p w)) = Some (p d)"
proof -
  let ?g = "\<lambda>x. if docId x = docId d then p x else x"
  have "\<And>x. P (?g x) = P x" by (simp add: assms(2))
  then have "find P (map ?g (rows w)) = map_option ?g (find P (rows w))"
    by (rule find_map_same)
  with assms(1) show ?thesis by (simp add: rows_dbUpdate)
qed

text \<open>After an upsert the row of the pair is the row the upsert returned.\<close>

lemma dbUpsert_find:
  assumes "\<And>x. ownedBy uid dt (p x) = ownedBy uid dt x" and "ownedBy uid dt new"
  shows "find (ownedBy uid dt) (rows (snd (dbUpsert uid dt p new w)))
           = Some (fst (dbUpsert uid dt p new w))"
proof (cases "find (ownedBy uid dt) (rows w)")
  case None
  then show ?thesis using assms(2) by (simp add: dbUpsert_def find_snoc)
next
  case (Some d)
  let ?g = "\<lambda>r. if ownedBy uid dt r then p r else r"
  have "\<And>x. ownedBy uid dt (?g x) = ownedBy uid dt x" by (simp add: assms(1))
  then have "find (ownedBy uid dt) (map ?g (rows w)) = map_option ?g (find (ownedBy uid dt) (rows w))"
    by (rule find_map_same)
  moreover from Some have "ownedBy uid dt d" by (auto simp: find_Some_iff)
  ultimately show ?thesis using Some by (simp add: dbUpsert_def)
qed

lemma events_dbUpsert:
  assumes "\<And>x. docId (p x) = docId x"
  shows "events (snd (dbUpsert uid dt p new w))
           = events w @ [DbUpsert (docId (fst (dbUpsert uid dt p new w)))]"
  by (simp add: dbUpsert_def assms split: option.splits)

section \<open>Input validation\<close>

lemma parseDocumentType_None:
  "v \<notin> {Some ''PASSPORT'', Some ''DRIVERS_LICENCE'', Some ''RESUME''} \<Longrightarrow> parseDocumentType v = None"
  by (cases v) (simp_all add: parseDocumentType_def)

lemma parseDocumentType_id:
  "v \<in> {Some ''PASSPORT'', Some ''DRIVERS_LICENCE''} \<Longrightarrow>
     \<exists>dt. parseDocumentType v = Some dt \<and> isIdDocument dt"
  by (auto simp: parseDocumentType_def isIdDocument_def)

lemma set_imageMimes: "set imageMimes = {''image/jpeg'', ''image/png'', ''image/jpg''}"
  unfolding imageMimes_def by (simp only: list.set)

lemma upload_unknown_category:
  "parseDocumentType (body_documentType req) = None \<Longrightarrow>
   httpStatus (fst (uploadHandler env uid req w)) = 400 \<and> snd (uploadHandler env uid req w) = w"
  by (simp add: uploadHandler_def respond_def split: option.splits)

lemma upload_bad_id_file:
  assumes "req_file req = Some f" and "parseDocumentType (body_documentType req) = Some dt"
    and "isIdDocument dt" and "mimetype f \<notin> set imageMimes \<or> 5 * 1024 * 1024 < fileSize f"
  shows "httpStatus (fst (uploadHandler env uid req w)) = 400 \<and> snd (uploadHandler env uid req w) = w"
  using assms by (simp add: uploadHandler_def respond_def)

text \<open>
  The handler's own validation: whatever file it is given, such a request gets status
  400 and the world is returned as it was.
\<close>

lemma uploadHandler_invalid_input:
  assumes "body_documentType req \<notin> {Some ''PASSPORT'', Some ''DRIVERS_LICENCE'', Some ''RESUME''}
           \<or> (\<exists>f. req_file req = Some f
                 \<and> body_documentType req \<in> {Some ''PASSPORT'', Some ''DRIVERS_LICENCE''}
                 \<and> (mimetype f \<notin> {''image/jpeg'', ''image/png'', ''image/jpg''}
                      \<or> 5 * 1024 * 1024 < fileSize f))"
  shows "httpStatus (fst (uploadHandler env uid req w)) = 400
         \<and> snd (uploadHandler env uid req w) = w"
proof -
  from assms show ?thesis
  proof
    assume "body_documentType req \<notin> {Some ''PASSPORT'', Some ''DRIVERS_LICENCE'', Some ''RESUME''}"
    then show ?thesis
      by (intro upload_unknown_category parseDocumentType_None)
  next
    assume "\<exists>f. req_file req = Some f
                 \<and> body_documentType req \<in> {Some ''PASSPORT'', Some ''DRIVERS_LICENCE''}
                 \<and> (mimetype f \<notin> {''image/jpeg'', ''image/png'', ''image/jpg''}
                      \<or> 5 * 1024 * 1024 < fileSize f)"
    then obtain f where f: "req_file req = Some f"
      and ty: "body_documentType req \<in> {Some ''PASSPORT'', Some ''DRIVERS_LICENCE''}"
      and bad: "mimetype f \<notin> {''image/jpeg'', ''image/png'', ''image/jpg''} \<or> 5 * 1024 * 1024 < fileSize f"
      by blast
    from parseDocumentType_id [OF ty] obtain dt
      where dt: "parseDocumentType (body_documentType req) = Some dt" "isIdDocument dt" by blast
    from bad have "mimetype f \<notin> set imageMimes \<or> 5 * 1024 * 1024 < fileSize f"
      by (simp only: set_imageMimes)
    with f dt show ?thesis by (rule upload_bad_id_file)
  qed
qed

lemma set_allowedMimes:
  "set allowedMimes = {''image/jpeg'', ''image/png'', ''image/jpg'', ''application/pdf''}"
  unfolding allowedMimes_def by (simp only: list.set)

lemma uploadSingle_passes:
  assumes "case req_file req of None \<Rightarrow> True
           | Some f \<Rightarrow> mimetype f \<in> set allowedMimes \<and> fileSize f \<le> fileSizeLimit"
  shows "uploadSingle req = Inr req"
  using assms by (cases "req_file req") (auto simp: uploadSingle_def fileFilter_def)

lemma uploadSingle_too_large:
  assumes "req_file req = Some f" and "mimetype f \<in> set allowedMimes"
    and "fileSizeLimit < fileSize f"
  shows "uploadSingle req = Inl ''File too large''"
  using assms by (simp add: uploadSingle_def fileFilter_def)

lemma uploadSingle_cases:
  "uploadSingle req = Inr req \<or> (\<exists>err. uploadSingle req = Inl err)"
  by (cases "req_file req") (auto simp: uploadSingle_def split: option.splits)

text \<open>
  C7. The claim promises status 400 for every passport upload whose declared media type
  is not a JPEG/PNG image and for every passport upload larger than 5MB. The route
  answers 500 for a GIF and for an 11MB JPEG: multer refuses both before the handler
  runs, and the error middleware answers.
\<close>

theorem upload_route_multer_refusal_is_500:
  "mimetype gifFile \<notin> {''image/jpeg'', ''image/png'', ''image/jpg''}
   \<and> httpStatus (fst (uploadRoute False offlineEnv ''alice'' (uploadOf gifFile ''PASSPORT'') emptyWorld))
       = 500
   \<and> 5 * 1024 * 1024 < fileSize hugeJpegFile
   \<and> httpStatus (fst (uploadRoute False offlineEnv ''alice'' (uploadOf hugeJpegFile ''PASSPORT'')
                         emptyWorld))
       = 500"
  by (simp add: uploadRoute_def uploadSingle_def fileFilter_def allowedMimes_def fileSizeLimit_def
        errorHandler_def respond_def uploadOf_def gifFile_def hugeJpegFile_def)

text \<open>
  C7, amended. For an upload whose category is none of the three names, or whose file for
  a passport or driver's licence is not declared as a JPEG/PNG image or is larger than
  5MB: the route returns the world as it was, so no row is created or changed and the
  store is not even read. The status is 400 whenever multer hands the request to the
  handler, that is when there is no file or the file's declared type is one of multer's
  four and its size at most 10MB; it is 500 when a file of one of the four types is
  larger than 10MB. The status for a declared type outside multer's four is left open.
\<close>

theorem upload_route_invalid_input:
  assumes "body_documentType req \<notin> {Some ''PASSPORT'', Some ''DRIVERS_LICENCE'', Some ''RESUME''}
           \<or> (\<exists>f. req_file req = Some f
                 \<and> body_documentType req \<in> {Some ''PASSPORT'', Some ''DRIVERS_LICENCE''}
                 \<and> (mimetype f \<notin> {''image/jpeg'', ''image/png'', ''image/jpg''}
                      \<or> 5 * 1024 * 1024 < fileSize f))"
  shows "snd (uploadRoute production env uid req w) = w
         \<and> ((case req_file req of
                None \<Rightarrow> True
              | Some f \<Rightarrow>
                  mimetype f \<in> {''image/jpeg'', ''image/png'', ''image/jpg'', ''application/pdf''}
                  \<and> fileSize f \<le> 10 * 1024 * 1024) \<longrightarrow>
             httpStatus (fst (uploadRoute production env uid req w)) = 400)
         \<and> (\<forall>f. req_file req = Some f
                  \<and> mimetype f \<in> {''image/jpeg'', ''image/png'', ''image/jpg'', ''application/pdf''}
                  \<and> 10 * 1024 * 1024 < fileSize f \<longrightarrow>
                httpStatus (fst (uploadRoute production env uid req w)) = 500)"
proof -
  note h = uploadHandler_invalid_input [OF assms, of env uid w]
  have unchanged: "snd (uploadRoute production env uid req w) = w"
    using uploadSingle_cases [of req] h by (auto simp: uploadRoute_def)
  have passed: "httpStatus (fst (uploadRoute production env uid req w)) = 400"
    if "case req_file req of None \<Rightarrow> True
        | Some f \<Rightarrow>
            mimetype f \<in> {''image/jpeg'', ''image/png'', ''image/jpg'', ''application/pdf''}
            \<and> fileSize f \<le> 10 * 1024 * 1024"
  proof -
    from that have "case req_file req of None \<Rightarrow> True
           | Some f \<Rightarrow> mimetype f \<in> set allowedMimes \<and> fileSize f \<le> fileSizeLimit"
      by (simp only: set_allowedMimes fileSizeLimit_def)
    then have "uploadSingle req = Inr req" by (rule uploadSingle_passes)
    then show ?thesis using h by (simp add: uploadRoute_def)
  qed
  have refused: "httpStatus (fst (uploadRoute production env uid req w)) = 500"
    if "req_file req = Some f"
      and "mimetype f \<in> {''image/jpeg'', ''image/png'', ''image/jpg'', ''application/pdf''}"
      and "10 * 1024 * 1024 < fileSize f" for f
  proof -
    from that(2) have m: "mimetype f \<in> set allowedMimes" by (simp only: set_allowedMimes)
    from that(3) have l: "fileSizeLimit < fileSize f" by (simp only: fileSizeLimit_def)
    from that(1) m l have "uploadSingle req = Inl ''File too large''"
      by (rule uploadSingle_too_large)
    then show ?thesis by (simp add: uploadRoute_def errorHandler_def respond_def)
  qed
  from unchanged passed refused show ?thesis by blast
qed

theorem upload_route_invalid_input_witness:
  "httpStatus (fst (uploadRoute True offlineEnv ''alice'' (uploadOf pdfFile ''PASSPORT'') emptyWorld)) = 400
   \<and> snd (uploadRoute True offlineEnv ''alice'' (uploadOf pdfFile ''PASSPORT'') emptyWorld) = emptyWorld
   \<and> httpStatus (fst (uploadRoute True offlineEnv ''alice'' (uploadOf hugeJpegFile ''PASSPORT'')
                         emptyWorld)) = 500
   \<and> snd (uploadRoute True offlineEnv ''alice'' (uploadOf hugeJpegFile ''PASSPORT'') emptyWorld)
       = emptyWorld"
proof -
  have p: "body_documentType (uploadOf pdfFile ''PASSPORT'')
             \<notin> {Some ''PASSPORT'', Some ''DRIVERS_LICENCE'', Some ''RESUME''}
           \<or> (\<exists>f. req_file (uploadOf pdfFile ''PASSPORT'') = Some f
                 \<and> body_documentType (uploadOf pdfFile ''PASSPORT'')
                     \<in> {Some ''PASSPORT'', Some ''DRIVERS_LICENCE''}
                 \<and> (mimetype f \<notin> {''image/jpeg'', ''image/png'', ''image/jpg''}
                      \<or> 5 * 1024 * 1024 < fileSize f))"
    by (simp add: uploadOf_def pdfFile_def)
  have q: "body_documentType (uploadOf hugeJpegFile ''PASSPORT'')
             \<notin> {Some ''PASSPORT'', Some ''DRIVERS_LICENCE'', Some ''RESUME''}
           \<or> (\<exists>f. req_file (uploadOf hugeJpegFile ''PASSPORT'') = Some f
                 \<and> body_documentType (uploadOf hugeJpegFile ''PASSPORT'')
                     \<in> {Some ''PASSPORT'', Some ''DRIVERS_LICENCE''}
                 \<and> (mimetype f \<notin> {''image/jpeg'', ''image/png'', ''image/jpg''}
                      \<or> 5 * 1024 * 1024 < fileSize f))"
    by (simp add: uploadOf_def hugeJpegFile_def)
  have pf: "case req_file (uploadOf pdfFile ''PASSPORT'') of
              None \<Rightarrow> True
            | Some f \<Rightarrow>
                mimetype f \<in> {''image/jpeg'', ''image/png'', ''image/jpg'', ''application/pdf''}
                \<and> fileSize f \<le> 10 * 1024 * 1024"
    by (simp add: uploadOf_def pdfFile_def)
  have qf: "req_file (uploadOf hugeJpegFile ''PASSPORT'') = Some hugeJpegFile
            \<and> mimetype hugeJpegFile \<in> {''image/jpeg'', ''image/png'', ''image/jpg'', ''application/pdf''}
            \<and> 10 * 1024 * 1024 < fileSize hugeJpegFile"
    by (simp add: uploadOf_def hugeJpegFile_def)
  from upload_route_invalid_input [OF p, of True offlineEnv "''alice''" emptyWorld] pf
  have a: "httpStatus (fst (uploadRoute True offlineEnv ''alice'' (uploadOf pdfFile ''PASSPORT'') emptyWorld)) = 400
           \<and> snd (uploadRoute True offlineEnv ''alice'' (uploadOf pdfFile ''PASSPORT'') emptyWorld) = emptyWorld"
    by blast
  from upload_route_invalid_input [OF q, of True offlineEnv "''alice''" emptyWorld] qf
  have b: "httpStatus (fst (uploadRoute True offlineEnv ''alice'' (uploadOf hugeJpegFile ''PASSPORT'')
                         emptyWorld)) = 500
           \<and> snd (uploadRoute True offlineEnv ''alice'' (uploadOf hugeJpegFile ''PASSPORT'') emptyWorld)
               = emptyWorld"
    by blast
  from a b show ?thesis by blast
qed

text \<open>
  C1. An upload that passes the input validation, for a user and category whose stored
  row is \<^verbatim>\<open>DONE\<close>, is answered with status 409; the rows of the store are unchanged
  and the only store access of the request is the lookup.
\<close>

theorem upload_done_conflict:
  assumes "req_file req = Some f"
    and "parseDocumentType (body_documentType req) = Some dt"
    and "isIdDocument dt \<longrightarrow> mimetype f \<in> set imageMimes \<and> fileSize f \<le> 5 * 1024 * 1024"
    and "find (ownedBy uid dt) (rows w) = Some d"
    and "status d = DONE"
  shows "httpStatus (fst (uploadHandler env uid req w)) = 409
         \<and> rows (snd (uploadHandler env uid req w)) = rows w
         \<and> requestEvents w (snd (uploadHandler env uid req w)) = [DbFindUnique]"
  using assms
  by (auto simp: uploadHandler_def findUnique_def respond_def)

theorem upload_done_conflict_witness:
  "httpStatus (fst (uploadHandler offlineEnv ''alice'' (uploadOf pdfFile ''RESUME'')
                      (worldOf [sampleDoc ''doc3'' ''alice'' RESUME DONE]))) = 409
   \<and> rows (snd (uploadHandler offlineEnv ''alice'' (uploadOf pdfFile ''RESUME'')
                      (worldOf [sampleDoc ''doc3'' ''alice'' RESUME DONE])))
       = [sampleDoc ''doc3'' ''alice'' RESUME DONE]"
  using upload_done_conflict
          [of "uploadOf pdfFile ''RESUME''" pdfFile RESUME "''alice''"
              "worldOf [sampleDoc ''doc3'' ''alice'' RESUME DONE]"
              "sampleDoc ''doc3'' ''alice'' RESUME DONE" offlineEnv]
  by (simp add: uploadOf_def parseDocumentType_def isIdDocument_def worldOf_def
        sampleDoc_def ownedBy_def)

section \<open>Submission\<close>

lemma find_dbUpdate_id:
  assumes "find P (rows w) = Some d" and "docId d = i" and "\<And>x. P (p x) = P x"
  shows "find P (rows (dbUpdate i p w)) = Some (p d)"
  using find_dbUpdate [OF assms(1), of p] assms(2,3) by simp

lemma dbUpsert_docId:
  assumes "\<And>x. docId (p x) = docId x"
  shows "docId (fst (dbUpsert uid dt p (createRow env uid dt fn m st) w)) = upsertId env uid dt w"
  by (simp add: dbUpsert_def upsertId_def createRow_def assms split: option.splits)

lemma submit_fails:
  assumes "find (ownedBy uid dt) (rows w) = Some d" and "docId d = i"
    and "submitForVerification env b m c t (''doc-'' @ i) = Inl e"
  shows "fst (submitDocumentForVerification env i b m c t w) = Some e"
    and "find (ownedBy uid dt) (rows (snd (submitDocumentForVerification env i b m c t w)))
           = Some (d\<lparr>status := FAILED,
                     errorMessage := Some ''Failed to submit document for verification. Please try again.''\<rparr>)"
    and "events (snd (submitDocumentForVerification env i b m c t w))
           = events w @ [DbUpdate i, CallSubmit b m c t (''doc-'' @ i), DbUpdate i]"
proof -
  let ?w1 = "dbUpdate i (\<lambda>d. d\<lparr>status := SUBMITTING\<rparr>) w"
  let ?w2 = "logEvent (CallSubmit b m c t (''doc-'' @ i)) ?w1"
  let ?pf = "\<lambda>d. d\<lparr>status := FAILED,
                     errorMessage := Some ''Failed to submit document for verification. Please try again.''\<rparr>"
  have eq: "submitDocumentForVerification env i b m c t w = (Some e, dbUpdate i ?pf ?w2)"
    using assms(3) by (simp add: submitDocumentForVerification_def Let_def)
  have "find (ownedBy uid dt) (rows ?w1) = Some (d\<lparr>status := SUBMITTING\<rparr>)"
    using assms(1,2) by (rule find_dbUpdate_id) (simp add: ownedBy_def)
  then have "find (ownedBy uid dt) (rows ?w2) = Some (d\<lparr>status := SUBMITTING\<rparr>)" by simp
  then have "find (ownedBy uid dt) (rows (dbUpdate i ?pf ?w2)) = Some (?pf (d\<lparr>status := SUBMITTING\<rparr>))"
    by (rule find_dbUpdate_id) (simp_all add: ownedBy_def assms(2))
  then show "find (ownedBy uid dt) (rows (snd (submitDocumentForVerification env i b m c t w)))
           = Some (?pf d)"
    by (simp add: eq)
  show "fst (submitDocumentForVerification env i b m c t w) = Some e" by (simp add: eq)
  show "events (snd (submitDocumentForVerification env i b m c t w))
           = events w @ [DbUpdate i, CallSubmit b m c t (''doc-'' @ i), DbUpdate i]"
    by (simp add: eq)
qed

lemma submit_succeeds:
  assumes "find (ownedBy uid dt) (rows w) = Some d" and "docId d = i"
    and "submitForVerification env b m c t (''doc-'' @ i) = Inr r"
  shows "fst (submitDocumentForVerification env i b m c t w) = None"
    and "find (ownedBy uid dt) (rows (snd (submitDocumentForVerification env i b m c t w)))
           = Some (d\<lparr>status := PROCESSING, documentVerifyId := Some (sr_documentVerifyId r)\<rparr>)"
    and "events (snd (submitDocumentForVerification env i b m c t w))
           = events w @ [DbUpdate i, CallSubmit b m c t (''doc-'' @ i), DbUpdate i]"
proof -
  let ?w1 = "dbUpdate i (\<lambda>d. d\<lparr>status := SUBMITTING\<rparr>) w"
  let ?w2 = "logEvent (CallSubmit b m c t (''doc-'' @ i)) ?w1"
  let ?pf = "\<lambda>d. d\<lparr>status := PROCESSING, documentVerifyId := Some (sr_documentVerifyId r)\<rparr>"
  have eq: "submitDocumentForVerification env i b m c t w = (None, dbUpdate i ?pf ?w2)"
    using assms(3) by (simp add: submitDocumentForVerification_def Let_def)
  have "find (ownedBy uid dt) (rows ?w1) = Some (d\<lparr>status := SUBMITTING\<rparr>)"
    using assms(1,2) by (rule find_dbUpdate_id) (simp add: ownedBy_def)
  then have "find (ownedBy uid dt) (rows ?w2) = Some (d\<lparr>status := SUBMITTING\<rparr>)" by simp
  then have "find (ownedBy uid dt) (rows (dbUpdate i ?pf ?w2)) = Some (?pf (d\<lparr>status := SUBMITTING\<rparr>))"
    by (rule find_dbUpdate_id) (simp_all add: ownedBy_def assms(2))
  then show "find (ownedBy uid dt) (rows (snd (submitDocumentForVerification env i b m c t w)))
           = Some (?pf d)"
    by (simp add: eq)
  show "fst (submitDocumentForVerification env i b m c t w) = None" by (simp add: eq)
  show "events (snd (submitDocumentForVerification env i b m c t w))
           = events w @ [DbUpdate i, CallSubmit b m c t (''doc-'' @ i), DbUpdate i]"
    by (simp add: eq)
qed


lemma resumeBranch_submit_fails:
  assumes "submitForVerification env b (mimetype f) ''PHL'' ''OTHER''
             (''doc-'' @ upsertId env uid dt w) = Inl e"
  shows "\<exists>d. find (ownedBy uid dt) (rows (snd (resumeBranch env uid dt f b w))) = Some d
              \<and> status d = DONE
              \<and> verificationResult d =
                  Some (ObjectLiteral [(''status'', ''SKIPPED''),
                                       (''message'', ''Resume verification is not required'')])
              \<and> errorMessage d =
                  Some ''Failed to submit document for verification. Please try again.''"
    and "events (snd (resumeBranch env uid dt f b w))
           = events w @ [DbUpsert (upsertId env uid dt w), DbUpdate (upsertId env uid dt w),
                         CallSubmit b (mimetype f) ''PHL'' ''OTHER'' (''doc-'' @ upsertId env uid dt w),
                         DbUpdate (upsertId env uid dt w), DbUpdate (upsertId env uid dt w),
                         DbFindUnique]"
    and "httpStatus (fst (resumeBranch env uid dt f b w)) = 200"
proof -
  let ?i = "upsertId env uid dt w"
  let ?p = "\<lambda>d. d\<lparr>fileName := originalname f, mimeType := mimetype f, status := SUBMITTING,
                     errorMessage := None, documentVerifyId := None, verificationResult := None\<rparr>"
  let ?new = "createRow env uid dt (originalname f) (mimetype f) SUBMITTING"
  let ?doc = "fst (dbUpsert uid dt ?p ?new w)"
  let ?w1 = "snd (dbUpsert uid dt ?p ?new w)"
  let ?done = "\<lambda>d. d\<lparr>status := DONE,
                        verificationResult :=
                          Some (ObjectLiteral [(''status'', ''SKIPPED''),
                                               (''message'', ''Resume verification is not required'')])\<rparr>"
  have id: "docId ?doc = ?i" by (rule dbUpsert_docId) simp
  have f1: "find (ownedBy uid dt) (rows ?w1) = Some ?doc"
    by (rule dbUpsert_find) (simp_all add: ownedBy_def createRow_def)
  have e1: "events ?w1 = events w @ [DbUpsert ?i]"
    using events_dbUpsert [of ?p uid dt ?new w] id by simp
  note s = submit_fails [OF f1 id assms]
  obtain w2 where sd:
    "submitDocumentForVerification env ?i b (mimetype f) ''PHL'' ''OTHER'' ?w1 = (Some e, w2)"
    using s(1) by (cases "submitDocumentForVerification env ?i b (mimetype f) ''PHL'' ''OTHER'' ?w1") auto
  have f2: "find (ownedBy uid dt) (rows w2)
              = Some (?doc\<lparr>status := FAILED,
                     errorMessage := Some ''Failed to submit document for verification. Please try again.''\<rparr>)"
    using s(2) sd by simp
  have e2: "events w2 = events ?w1 @ [DbUpdate ?i, CallSubmit b (mimetype f) ''PHL'' ''OTHER'' (''doc-'' @ ?i), DbUpdate ?i]"
    using s(3) sd by simp
  have eq: "snd (resumeBranch env uid dt f b w) = logEvent DbFindUnique (dbUpdate ?i ?done w2)"
    and st: "httpStatus (fst (resumeBranch env uid dt f b w)) = 200"
    by (simp_all add: resumeBranch_def Let_def case_prod_beta id sd findUniqueById_def respond_def)
  have f3: "find (ownedBy uid dt) (rows (dbUpdate ?i ?done w2))
              = Some (?done (?doc\<lparr>status := FAILED,
                     errorMessage := Some ''Failed to submit document for verification. Please try again.''\<rparr>))"
    using f2 by (rule find_dbUpdate_id) (simp_all add: id ownedBy_def)
  show "\<exists>d. find (ownedBy uid dt) (rows (snd (resumeBranch env uid dt f b w))) = Some d
              \<and> status d = DONE
              \<and> verificationResult d =
                  Some (ObjectLiteral [(''status'', ''SKIPPED''),
                                       (''message'', ''Resume verification is not required'')])
              \<and> errorMessage d =
                  Some ''Failed to submit document for verification. Please try again.''"
    using f3 by (simp add: eq)
  show "events (snd (resumeBranch env uid dt f b w))
           = events w @ [DbUpsert ?i, DbUpdate ?i,
                         CallSubmit b (mimetype f) ''PHL'' ''OTHER'' (''doc-'' @ ?i),
                         DbUpdate ?i, DbUpdate ?i, DbFindUnique]"
    by (simp add: eq e2 e1)
  show "httpStatus (fst (resumeBranch env uid dt f b w)) = 200" by (rule st)
qed

lemma upload_resume_passes:
  assumes "req_file req = Some f" and "body_documentType req = Some ''RESUME''"
    and "\<forall>d. find (ownedBy uid RESUME) (rows w) = Some d \<longrightarrow> status d \<noteq> DONE"
  shows "uploadHandler env uid req w
           = resumeBranch env uid RESUME f (toBase64 env (buffer f)) (logEvent DbFindUnique w)"
  using assms
  by (simp add: uploadHandler_def parseDocumentType_def isIdDocument_def findUnique_def
        split: option.splits)

lemma upsertId_logEvent [simp]: "upsertId env uid dt (logEvent e w) = upsertId env uid dt w"
  by (simp add: upsertId_def)

text \<open>
  C2. A resume upload that reaches the submission (file present, no \<^verbatim>\<open>DONE\<close> row
  for the pair) and whose one call of the submit capability throws ends with the row of
  the pair in state \<^verbatim>\<open>DONE\<close>, not \<^verbatim>\<open>FAILED\<close>, with a verification payload whose
  status is \<^verbatim>\<open>SKIPPED\<close>; the response has status 200.
\<close>

theorem resume_submit_failure_skipped:
  assumes "req_file req = Some f" and "body_documentType req = Some ''RESUME''"
    and "\<forall>d. find (ownedBy uid RESUME) (rows w) = Some d \<longrightarrow> status d \<noteq> DONE"
    and "submitForVerification env (toBase64 env (buffer f)) (mimetype f) ''PHL'' ''OTHER''
           (''doc-'' @ upsertId env uid RESUME w) = Inl e"
  shows "filter isSubmit (requestEvents w (snd (uploadHandler env uid req w)))
           = [CallSubmit (toBase64 env (buffer f)) (mimetype f) ''PHL'' ''OTHER''
                (''doc-'' @ upsertId env uid RESUME w)]
         \<and> (\<exists>d. find (ownedBy uid RESUME) (rows (snd (uploadHandler env uid req w))) = Some d
                \<and> status d = DONE \<and> status d \<noteq> FAILED
                \<and> Option.bind (verificationResult d) payloadStatus = Some ''SKIPPED'')
         \<and> httpStatus (fst (uploadHandler env uid req w)) = 200"
proof -
  let ?w0 = "logEvent DbFindUnique w"
  have up: "uploadHandler env uid req w
              = resumeBranch env uid RESUME f (toBase64 env (buffer f)) ?w0"
    using assms(1-3) by (rule upload_resume_passes)
  have fail: "submitForVerification env (toBase64 env (buffer f)) (mimetype f) ''PHL'' ''OTHER''
                (''doc-'' @ upsertId env uid RESUME ?w0) = Inl e"
    using assms(4) by simp
  note r = resumeBranch_submit_fails [OF fail]
  from r(1) obtain d where d: "find (ownedBy uid RESUME) (rows (snd (uploadHandler env uid req w))) = Some d"
    "status d = DONE" "verificationResult d =
                  Some (ObjectLiteral [(''status'', ''SKIPPED''),
                                       (''message'', ''Resume verification is not required'')])"
    unfolding up by blast
  have ev: "requestEvents w (snd (uploadHandler env uid req w))
              = [DbFindUnique, DbUpsert (upsertId env uid RESUME w), DbUpdate (upsertId env uid RESUME w),
                 CallSubmit (toBase64 env (buffer f)) (mimetype f) ''PHL'' ''OTHER''
                   (''doc-'' @ upsertId env uid RESUME w),
                 DbUpdate (upsertId env uid RESUME w), DbUpdate (upsertId env uid RESUME w),
                 DbFindUnique]"
    by (rule requestEvents_append) (simp add: up r(2))
  have "filter isSubmit (requestEvents w (snd (uploadHandler env uid req w)))
           = [CallSubmit (toBase64 env (buffer f)) (mimetype f) ''PHL'' ''OTHER''
                (''doc-'' @ upsertId env uid RESUME w)]"
    by (simp add: ev)
  moreover have "Option.bind (verificationResult d) payloadStatus = Some ''SKIPPED''"
    by (simp add: d(3))
  moreover have "httpStatus (fst (uploadHandler env uid req w)) = 200"
    unfolding up by (rule r(3))
  ultimately show ?thesis using d(1,2) by simp
qed

theorem resume_submit_failure_skipped_witness:
  "\<exists>d. find (ownedBy ''alice'' RESUME)
          (rows (snd (uploadHandler offlineEnv ''alice'' (uploadOf pdfFile ''RESUME'') emptyWorld))) = Some d
       \<and> status d = DONE
       \<and> Option.bind (verificationResult d) payloadStatus = Some ''SKIPPED''"
proof -
  have h1: "req_file (uploadOf pdfFile ''RESUME'') = Some pdfFile"
    and h2: "body_documentType (uploadOf pdfFile ''RESUME'') = Some ''RESUME''"
    by (simp_all add: uploadOf_def)
  have h3: "\<forall>d. find (ownedBy ''alice'' RESUME) (rows emptyWorld) = Some d \<longrightarrow> status d \<noteq> DONE"
    by (simp add: emptyWorld_def)
  have h4: "submitForVerification offlineEnv (toBase64 offlineEnv (buffer pdfFile)) (mimetype pdfFile)
              ''PHL'' ''OTHER'' (''doc-'' @ upsertId offlineEnv ''alice'' RESUME emptyWorld)
            = Inl ''Verification submission failed: 503''"
    by (simp add: offlineEnv_def)
  from resume_submit_failure_skipped [OF h1 h2 h3 h4] show ?thesis by blast
qed

text \<open>
  C3. The claimed invariant, \<^verbatim>\<open>errorMessage\<close> present only in a failure state, does
  not hold of the store the routes produce: the first resume upload into an empty
  store, with the submit capability down, leaves a row in state \<^verbatim>\<open>DONE\<close> that still
  carries the message \<^verbatim>\<open>submitDocumentForVerification\<close> wrote before rethrowing.
\<close>

theorem resume_skipped_done_keeps_errorMessage:
  "map_option status
     (find (ownedBy ''alice'' RESUME)
        (rows (snd (uploadHandler offlineEnv ''alice'' (uploadOf pdfFile ''RESUME'') emptyWorld))))
   = Some DONE
   \<and> map_option errorMessage
       (find (ownedBy ''alice'' RESUME)
          (rows (snd (uploadHandler offlineEnv ''alice'' (uploadOf pdfFile ''RESUME'') emptyWorld))))
     = Some (Some ''Failed to submit document for verification. Please try again.'')"
  by (simp add: uploadHandler_def uploadOf_def parseDocumentType_def isIdDocument_def
        findUnique_def emptyWorld_def resumeBranch_def dbUpsert_def createRow_def
        submitDocumentForVerification_def offlineEnv_def dbUpdate_def logEvent_def
        findUniqueById_def ownedBy_def pdfFile_def Let_def)

section \<open>Status and result routes\<close>

lemma find_none_foreign:
  assumes "\<forall>d\<in>set ds. docId d = i \<longrightarrow> userId d \<noteq> uid"
  shows "find (\<lambda>d. docId d = i \<and> userId d = uid) ds = None"
  using assms by (auto simp: find_None_iff)

lemma statusHandler_not_found:
  assumes "find (\<lambda>d. docId d = i \<and> userId d = uid) (rows w) = None"
  shows "statusHandler env uid i w
           = (respond 404 (ErrorBody ''Document not found''), logEvent DbFindFirst w)"
  using assms by (simp add: statusHandler_def findFirst_def)

lemma resultHandler_not_found:
  assumes "find (\<lambda>d. docId d = i \<and> userId d = uid) (rows w) = None"
  shows "resultHandler uid i w
           = (respond 404 (ErrorBody ''Document not found''), logEvent DbFindFirst w)"
  using assms by (simp add: resultHandler_def findFirst_def)

lemma found_docId:
  assumes "find (\<lambda>d. docId d = i \<and> userId d = uid) ds = Some d"
  shows "docId d = i" and "userId d = uid"
  using assms by (auto simp: find_Some_iff)

lemma statusHandler_poll_throws:
  assumes "find (\<lambda>d. docId d = i \<and> userId d = uid) (rows w) = Some d"
    and "status d = PROCESSING" and "documentVerifyId d = Some v" and "v \<noteq> []"
    and "getVerificationResult env v = Inl e"
  shows "statusHandler env uid i w
           = (respond 200 (StatusBody i PROCESSING False), logEvent (CallPoll v) (logEvent DbFindFirst w))"
  using assms found_docId(1) [OF assms(1)]
  by (simp add: statusHandler_def findFirst_def currentStatus_def)

lemma statusHandler_poll_terminal:
  assumes "find (\<lambda>d. docId d = i \<and> userId d = uid) (rows w) = Some d"
    and "status d = PROCESSING" and "documentVerifyId d = Some v" and "v \<noteq> []"
    and "getVerificationResult env v = Inr r"
    and "vr_status r = V_DONE \<or> vr_status r = V_FAILED"
  shows "statusHandler env uid i w
           = (respond 200 (StatusBody i (toDocumentStatus (vr_status r)) True),
              dbUpdate i (\<lambda>d. d\<lparr>status := toDocumentStatus (vr_status r),
                                verificationResult := Some (FromVerify r)\<rparr>)
                (logEvent (CallPoll v) (logEvent DbFindFirst w)))"
  using assms found_docId(1) [OF assms(1)]
  by (simp add: statusHandler_def findFirst_def)

lemma statusHandler_settled:
  assumes "find (\<lambda>d. docId d = i \<and> userId d = uid) (rows w) = Some d"
    and "status d = DONE \<or> status d = FAILED"
  shows "statusHandler env uid i w
           = (respond 200 (StatusBody i (status d) True), logEvent DbFindFirst w)"
  using assms found_docId(1) [OF assms(1)]
  by (auto simp: statusHandler_def findFirst_def currentStatus_def split: option.splits)

lemma statusRequests_settled:
  assumes "find (\<lambda>d. docId d = i \<and> userId d = uid) (rows w) = Some d"
    and "status d = DONE \<or> status d = FAILED"
  shows "fst (statusRequests envs uid i w)
           = replicate (length envs) (respond 200 (StatusBody i (status d) True))
         \<and> rows (snd (statusRequests envs uid i w)) = rows w
         \<and> events (snd (statusRequests envs uid i w))
             = events w @ replicate (length envs) DbFindFirst"
  using assms
proof (induction envs arbitrary: w)
  case Nil
  then show ?case by simp
next
  case (Cons env envs)
  have step: "statusHandler env uid i w
                = (respond 200 (StatusBody i (status d) True), logEvent DbFindFirst w)"
    using Cons.prems by (rule statusHandler_settled)
  have "find (\<lambda>d. docId d = i \<and> userId d = uid) (rows (logEvent DbFindFirst w)) = Some d"
    using Cons.prems(1) by simp
  from Cons.IH [OF this Cons.prems(2)] show ?case
    by (simp add: step case_prod_beta replicate_app_Cons_same)
qed


text \<open>
  C4. A status request for an owned row in state \<^verbatim>\<open>PROCESSING\<close> with a verification
  identifier, whose poll call throws, is answered with status 200 and the stored state;
  the rows are unchanged and the request makes no store access besides the lookup.
\<close>

theorem status_poll_failure_keeps_state:
  assumes "find (\<lambda>d. docId d = i \<and> userId d = uid) (rows w) = Some d"
    and "status d = PROCESSING" and "documentVerifyId d = Some v" and "v \<noteq> []"
    and "getVerificationResult env v = Inl e"
  shows "fst (statusHandler env uid i w) = respond 200 (StatusBody i (status d) False)
         \<and> rows (snd (statusHandler env uid i w)) = rows w
         \<and> requestEvents w (snd (statusHandler env uid i w)) = [DbFindFirst, CallPoll v]"
proof -
  note h = statusHandler_poll_throws [OF assms]
  have "requestEvents w (snd (statusHandler env uid i w)) = [DbFindFirst, CallPoll v]"
    by (rule requestEvents_append) (simp add: h)
  then show ?thesis by (simp add: h assms(2))
qed

theorem status_poll_failure_keeps_state_witness:
  "fst (statusHandler offlineEnv ''alice'' ''doc7'' (worldOf [processingDoc]))
     = respond 200 (StatusBody ''doc7'' PROCESSING False)
   \<and> rows (snd (statusHandler offlineEnv ''alice'' ''doc7'' (worldOf [processingDoc]))) = [processingDoc]"
proof -
  have h1: "find (\<lambda>d. docId d = ''doc7'' \<and> userId d = ''alice'') (rows (worldOf [processingDoc]))
              = Some processingDoc"
    by (simp add: worldOf_def processingDoc_def sampleDoc_def)
  have h2: "status processingDoc = PROCESSING"
    and h3: "documentVerifyId processingDoc = Some ''v7''"
    and h4: "''v7'' \<noteq> []"
    by (simp_all add: processingDoc_def sampleDoc_def)
  have h5: "getVerificationResult offlineEnv ''v7'' = Inl ''Failed to get verification result: 503''"
    by (simp add: offlineEnv_def)
  from status_poll_failure_keeps_state [OF h1 h2 h3 h4 h5] show ?thesis
    by (simp add: h2 worldOf_def)
qed

text \<open>
  C5. A status request for an owned \<^verbatim>\<open>PROCESSING\<close> row whose poll returns \<^verbatim>\<open>DONE\<close>
  stores \<^verbatim>\<open>DONE\<close>, and one whose poll returns \<^verbatim>\<open>FAILED\<close> stores \<^verbatim>\<open>FAILED\<close>,
  together with the returned payload, with exactly one write, and reports that state.
  Every run of further status requests for the document, whatever the external service
  then answers, writes nothing, leaves the rows as they are and answers each request
  with the same terminal state.
\<close>

theorem status_poll_terminal_persisted_once:
  assumes "find (\<lambda>d. docId d = i \<and> userId d = uid) (rows w) = Some d"
    and "status d = PROCESSING" and "documentVerifyId d = Some v" and "v \<noteq> []"
    and "getVerificationResult env v = Inr r"
    and "(vr_status r = V_DONE \<and> st = DONE) \<or> (vr_status r = V_FAILED \<and> st = FAILED)"
  shows "fst (statusHandler env uid i w) = respond 200 (StatusBody i st True)
         \<and> find (\<lambda>d. docId d = i \<and> userId d = uid) (rows (snd (statusHandler env uid i w)))
             = Some (d\<lparr>status := st, verificationResult := Some (FromVerify r)\<rparr>)
         \<and> filter isWrite (requestEvents w (snd (statusHandler env uid i w))) = [DbUpdate i]
         \<and> (\<forall>envs.
               rows (snd (statusRequests envs uid i (snd (statusHandler env uid i w))))
                 = rows (snd (statusHandler env uid i w))
               \<and> filter isWrite
                   (requestEvents (snd (statusHandler env uid i w))
                      (snd (statusRequests envs uid i (snd (statusHandler env uid i w))))) = []
               \<and> fst (statusRequests envs uid i (snd (statusHandler env uid i w)))
                   = replicate (length envs) (respond 200 (StatusBody i st True)))"
proof -
  let ?p = "\<lambda>d. d\<lparr>status := st, verificationResult := Some (FromVerify r)\<rparr>"
  let ?w0 = "logEvent (CallPoll v) (logEvent DbFindFirst w)"
  let ?w1 = "snd (statusHandler env uid i w)"
  have st: "toDocumentStatus (vr_status r) = st"
    using assms(6) by auto
  have terminal: "vr_status r = V_DONE \<or> vr_status r = V_FAILED"
    using assms(6) by auto
  note h = statusHandler_poll_terminal [OF assms(1-5) terminal]
  have w1: "?w1 = dbUpdate i ?p ?w0" by (simp add: h st)
  have resp: "fst (statusHandler env uid i w) = respond 200 (StatusBody i st True)"
    by (simp add: h st)
  have "find (\<lambda>d. docId d = i \<and> userId d = uid) (rows ?w0) = Some d"
    using assms(1) by simp
  then have "find (\<lambda>d. docId d = i \<and> userId d = uid) (rows (dbUpdate i ?p ?w0)) = Some (?p d)"
    by (rule find_dbUpdate_id) (simp_all add: found_docId(1) [OF assms(1)])
  then have row: "find (\<lambda>d. docId d = i \<and> userId d = uid) (rows ?w1) = Some (?p d)"
    by (simp add: w1)
  have "requestEvents w ?w1 = [DbFindFirst, CallPoll v, DbUpdate i]"
    by (rule requestEvents_append) (simp add: w1)
  then have once: "filter isWrite (requestEvents w ?w1) = [DbUpdate i]" by simp
  have settled: "status (?p d) = DONE \<or> status (?p d) = FAILED"
    using assms(6) by auto
  have later: "rows (snd (statusRequests envs uid i ?w1)) = rows ?w1
               \<and> filter isWrite (requestEvents ?w1 (snd (statusRequests envs uid i ?w1))) = []
               \<and> fst (statusRequests envs uid i ?w1)
                   = replicate (length envs) (respond 200 (StatusBody i st True))"
    for envs
  proof -
    note s = statusRequests_settled [OF row settled, of envs]
    have "requestEvents ?w1 (snd (statusRequests envs uid i ?w1)) = replicate (length envs) DbFindFirst"
      by (rule requestEvents_append) (simp add: s)
    then have "filter isWrite (requestEvents ?w1 (snd (statusRequests envs uid i ?w1))) = []"
      by simp
    then show ?thesis using s by simp
  qed
  from resp row once later show ?thesis by blast
qed

theorem status_poll_terminal_persisted_once_witness:
  "fst (statusHandler (onlineEnv phlPassport V_DONE) ''alice'' ''doc7'' (worldOf [processingDoc]))
     = respond 200 (StatusBody ''doc7'' DONE True)
   \<and> fst (statusRequests [offlineEnv, onlineEnv phlPassport V_FAILED] ''alice'' ''doc7''
            (snd (statusHandler (onlineEnv phlPassport V_DONE) ''alice'' ''doc7'' (worldOf [processingDoc]))))
     = [respond 200 (StatusBody ''doc7'' DONE True), respond 200 (StatusBody ''doc7'' DONE True)]
   \<and> fst (statusHandler (onlineEnv phlPassport V_FAILED) ''alice'' ''doc7'' (worldOf [processingDoc]))
     = respond 200 (StatusBody ''doc7'' FAILED True)
   \<and> map_option status
       (find (\<lambda>d. docId d = ''doc7'' \<and> userId d = ''alice'')
          (rows (snd (statusHandler (onlineEnv phlPassport V_FAILED) ''alice'' ''doc7''
                        (worldOf [processingDoc])))))
     = Some FAILED"
proof -
  let ?rd = "\<lparr>vr_documentVerifyId = ''v7'', vr_status = V_DONE, vr_rest = []\<rparr>"
  let ?rf = "\<lparr>vr_documentVerifyId = ''v7'', vr_status = V_FAILED, vr_rest = []\<rparr>"
  have h1: "find (\<lambda>d. docId d = ''doc7'' \<and> userId d = ''alice'') (rows (worldOf [processingDoc]))
              = Some processingDoc"
    by (simp add: worldOf_def processingDoc_def sampleDoc_def)
  have h2: "status processingDoc = PROCESSING"
    and h3: "documentVerifyId processingDoc = Some ''v7''"
    and h4: "''v7'' \<noteq> []"
    by (simp_all add: processingDoc_def sampleDoc_def)
  have h5d: "getVerificationResult (onlineEnv phlPassport V_DONE) ''v7'' = Inr ?rd"
    and h5f: "getVerificationResult (onlineEnv phlPassport V_FAILED) ''v7'' = Inr ?rf"
    by (simp_all add: onlineEnv_def)
  have h6d: "(vr_status ?rd = V_DONE \<and> DONE = DONE) \<or> (vr_status ?rd = V_FAILED \<and> DONE = FAILED)"
    and h6f: "(vr_status ?rf = V_DONE \<and> FAILED = DONE) \<or> (vr_status ?rf = V_FAILED \<and> FAILED = FAILED)"
    by simp_all
  note td = status_poll_terminal_persisted_once [OF h1 h2 h3 h4 h5d h6d]
  note tf = status_poll_terminal_persisted_once [OF h1 h2 h3 h4 h5f h6f]
  let ?w1 = "snd (statusHandler (onlineEnv phlPassport V_DONE) ''alice'' ''doc7'' (worldOf [processingDoc]))"
  from td have first: "fst (statusHandler (onlineEnv phlPassport V_DONE) ''alice'' ''doc7'' (worldOf [processingDoc]))
     = respond 200 (StatusBody ''doc7'' DONE True)" by blast
  from td have "fst (statusRequests [offlineEnv, onlineEnv phlPassport V_FAILED] ''alice'' ''doc7'' ?w1)
     = replicate (length [offlineEnv, onlineEnv phlPassport V_FAILED])
         (respond 200 (StatusBody ''doc7'' DONE True))"
    by blast
  then have later: "fst (statusRequests [offlineEnv, onlineEnv phlPassport V_FAILED] ''alice'' ''doc7'' ?w1)
     = [respond 200 (StatusBody ''doc7'' DONE True), respond 200 (StatusBody ''doc7'' DONE True)]"
    by (simp add: numeral_2_eq_2)
  from tf have failed: "fst (statusHandler (onlineEnv phlPassport V_FAILED) ''alice'' ''doc7'' (worldOf [processingDoc]))
     = respond 200 (StatusBody ''doc7'' FAILED True)" by blast
  from tf have "find (\<lambda>d. docId d = ''doc7'' \<and> userId d = ''alice'')
          (rows (snd (statusHandler (onlineEnv phlPassport V_FAILED) ''alice'' ''doc7''
                        (worldOf [processingDoc]))))
      = Some (processingDoc\<lparr>status := FAILED, verificationResult := Some (FromVerify ?rf)\<rparr>)"
    by blast
  then have stored: "map_option status
       (find (\<lambda>d. docId d = ''doc7'' \<and> userId d = ''alice'')
          (rows (snd (statusHandler (onlineEnv phlPassport V_FAILED) ''alice'' ''doc7''
                        (worldOf [processingDoc])))))
     = Some FAILED"
    by simp
  from first later failed stored show ?thesis by blast
qed

text \<open>
  C10. When the requester owns no row with the requested identifier, the status and the
  result route both answer 404 "Document not found", poll nothing and leave the rows
  unchanged. The hypothesis covers a row of that identifier owned by someone else as
  well as no such row at all, so the answer is the one given for the store from which
  every row of that identifier has been removed.
\<close>

theorem foreign_document_not_found:
  assumes "\<forall>d \<in> set (rows w). docId d = i \<longrightarrow> userId d \<noteq> uid"
  shows "fst (statusHandler env uid i w) = respond 404 (ErrorBody ''Document not found'')
         \<and> fst (resultHandler uid i w) = respond 404 (ErrorBody ''Document not found'')
         \<and> fst (statusHandler env uid i w)
             = fst (statusHandler env uid i (w\<lparr>rows := filter (\<lambda>d. docId d \<noteq> i) (rows w)\<rparr>))
         \<and> fst (resultHandler uid i w)
             = fst (resultHandler uid i (w\<lparr>rows := filter (\<lambda>d. docId d \<noteq> i) (rows w)\<rparr>))
         \<and> rows (snd (statusHandler env uid i w)) = rows w
         \<and> requestEvents w (snd (statusHandler env uid i w)) = [DbFindFirst]
         \<and> rows (snd (resultHandler uid i w)) = rows w"
proof -
  let ?w' = "w\<lparr>rows := filter (\<lambda>d. docId d \<noteq> i) (rows w)\<rparr>"
  have n: "find (\<lambda>d. docId d = i \<and> userId d = uid) (rows w) = None"
    using assms by (rule find_none_foreign)
  have n': "find (\<lambda>d. docId d = i \<and> userId d = uid) (rows ?w') = None"
    by (rule find_none_foreign) simp
  note a = statusHandler_not_found [OF n, of env] resultHandler_not_found [OF n]
  note b = statusHandler_not_found [OF n', of env] resultHandler_not_found [OF n']
  have "requestEvents w (snd (statusHandler env uid i w)) = [DbFindFirst]"
    by (rule requestEvents_append) (simp add: a)
  then show ?thesis by (simp add: a b)
qed

theorem foreign_document_not_found_witness:
  "fst (statusHandler (onlineEnv phlPassport V_DONE) ''mallory'' ''doc7'' (worldOf [processingDoc]))
     = respond 404 (ErrorBody ''Document not found'')
   \<and> fst (resultHandler ''mallory'' ''doc7'' (worldOf [processingDoc]))
     = respond 404 (ErrorBody ''Document not found'')
   \<and> fst (statusHandler (onlineEnv phlPassport V_DONE) ''mallory'' ''doc7'' (worldOf [processingDoc]))
     = fst (statusHandler (onlineEnv phlPassport V_DONE) ''mallory'' ''doc7'' (worldOf []))"
proof -
  have h: "\<forall>d \<in> set (rows (worldOf [processingDoc])). docId d = ''doc7'' \<longrightarrow> userId d \<noteq> ''mallory''"
    by (simp add: worldOf_def processingDoc_def sampleDoc_def)
  have e: "(worldOf [processingDoc])\<lparr>rows := filter (\<lambda>d. docId d \<noteq> ''doc7'') (rows (worldOf [processingDoc]))\<rparr>
             = worldOf []"
    by (simp add: worldOf_def processingDoc_def sampleDoc_def)
  from foreign_document_not_found [OF h, of "onlineEnv phlPassport V_DONE"] show ?thesis
    unfolding e by blast
qed

text \<open>
  C9. The claim counts \<^verbatim>\<open>CLASSIFICATION_FAILED\<close> among the terminal states for which the
  result route returns the document, and says the document is returned in full. The
  route's gate is narrower: for an owned row in state \<^verbatim>\<open>CLASSIFICATION_FAILED\<close> it
  answers 400. And its \<^verbatim>\<open>select\<close> leaves fields out: two \<^verbatim>\<open>DONE\<close> rows that differ
  in \<^verbatim>\<open>mimeType\<close>, \<^verbatim>\<open>documentVerifyId\<close> and \<^verbatim>\<open>errorMessage\<close> get the same answer.
\<close>

theorem result_classification_failed_refused:
  "specTerminal (status (sampleDoc ''doc5'' ''alice'' PASSPORT CLASSIFICATION_FAILED))
   \<and> fst (resultHandler ''alice'' ''doc5''
            (worldOf [sampleDoc ''doc5'' ''alice'' PASSPORT CLASSIFICATION_FAILED]))
       = respond 400 (ErrorBody ''Verification is still in progress'')
   \<and> sampleDoc ''doc3'' ''alice'' RESUME DONE
       \<noteq> (sampleDoc ''doc3'' ''alice'' RESUME DONE)
            \<lparr>mimeType := ''application/pdf'', documentVerifyId := Some ''v3'',
             errorMessage := Some ''Failed to submit document for verification. Please try again.''\<rparr>
   \<and> fst (resultHandler ''alice'' ''doc3'' (worldOf [sampleDoc ''doc3'' ''alice'' RESUME DONE]))
       = fst (resultHandler ''alice'' ''doc3''
                (worldOf [(sampleDoc ''doc3'' ''alice'' RESUME DONE)
                            \<lparr>mimeType := ''application/pdf'', documentVerifyId := Some ''v3'',
                             errorMessage :=
                               Some ''Failed to submit document for verification. Please try again.''\<rparr>]))"
  by (simp add: specTerminal_def resultHandler_def findFirst_def worldOf_def sampleDoc_def
        selectResult_def)

text \<open>
  C9, amended. For an owned row the result route answers 400 exactly when the state is
  neither \<^verbatim>\<open>DONE\<close> nor \<^verbatim>\<open>FAILED\<close> (so also for \<^verbatim>\<open>CLASSIFICATION_FAILED\<close>); for
  \<^verbatim>\<open>DONE\<close> and \<^verbatim>\<open>FAILED\<close> it answers 200 with the row's identifier, category, file
  name, state, verification payload and classification payload. The store is not
  changed.
\<close>

theorem result_gate_done_or_failed:
  assumes "find (\<lambda>d. docId d = i \<and> userId d = uid) (rows w) = Some d"
  shows "(status d \<noteq> DONE \<and> status d \<noteq> FAILED \<longrightarrow>
            fst (resultHandler uid i w) = respond 400 (ErrorBody ''Verification is still in progress''))
         \<and> (status d = DONE \<or> status d = FAILED \<longrightarrow>
            fst (resultHandler uid i w)
              = respond 200
                  (ResultBody
                     \<lparr>res_id = i, res_documentType = documentType d, res_fileName = fileName d,
                      res_status = status d, res_verificationResult = verificationResult d,
                      res_classificationResult = classificationResult d\<rparr>))
         \<and> rows (snd (resultHandler uid i w)) = rows w"
  using assms found_docId(1) [OF assms]
  by (auto simp: resultHandler_def findFirst_def selectResult_def)

theorem result_gate_done_or_failed_witness:
  "fst (resultHandler ''alice'' ''doc3'' (worldOf [sampleDoc ''doc3'' ''alice'' RESUME DONE]))
     = respond 200
         (ResultBody
            \<lparr>res_id = ''doc3'', res_documentType = RESUME, res_fileName = ''scan.jpg'',
             res_status = DONE, res_verificationResult = None, res_classificationResult = None\<rparr>)
   \<and> fst (resultHandler ''alice'' ''doc3'' (worldOf [sampleDoc ''doc3'' ''alice'' RESUME SUBMITTING]))
     = respond 400 (ErrorBody ''Verification is still in progress'')"
proof -
  have h1: "find (\<lambda>d. docId d = ''doc3'' \<and> userId d = ''alice'')
              (rows (worldOf [sampleDoc ''doc3'' ''alice'' RESUME DONE]))
            = Some (sampleDoc ''doc3'' ''alice'' RESUME DONE)"
    by (simp add: worldOf_def sampleDoc_def)
  have h2: "find (\<lambda>d. docId d = ''doc3'' \<and> userId d = ''alice'')
              (rows (worldOf [sampleDoc ''doc3'' ''alice'' RESUME SUBMITTING]))
            = Some (sampleDoc ''doc3'' ''alice'' RESUME SUBMITTING)"
    by (simp add: worldOf_def sampleDoc_def)
  from result_gate_done_or_failed [OF h1] result_gate_done_or_failed [OF h2]
  show ?thesis by (simp add: sampleDoc_def)
qed

section \<open>Classification branch\<close>

lemma classificationCheck_id:
  assumes "isIdDocument dt"
  shows "fst (classificationCheck dt c)
           = (map_option code (cls_country c) = Some ''PHL''
              \<and> map_option code (cls_documentType c) = Some (documentTypeName dt))"
    and "snd (classificationCheck dt c)
           = (if dt = PASSPORT then ''Philippines Passport'' else ''Philippines Driver's Licence'')"
  using assms
  by (cases dt; simp add: classificationCheck_def isIdDocument_def
        isValidPhilippinesPassport_def isValidPhilippinesDriversLicence_def)+

lemma upload_id_passes:
  assumes "req_file req = Some f" and "parseDocumentType (body_documentType req) = Some dt"
    and "isIdDocument dt" and "mimetype f \<in> set imageMimes" and "fileSize f \<le> 5 * 1024 * 1024"
    and "\<forall>d. find (ownedBy uid dt) (rows w) = Some d \<longrightarrow> status d \<noteq> DONE"
  shows "uploadHandler env uid req w
           = classifyBranch env uid dt f (toBase64 env (buffer f)) (logEvent DbFindUnique w)"
  using assms
  by (simp add: uploadHandler_def findUnique_def split: option.splits)

lemma classify_upsert:
  fixes f :: UploadedFile
  defines "p \<equiv> (\<lambda>d. d\<lparr>fileName := originalname f, mimeType := mimetype f, status := CLASSIFYING,
                      errorMessage := None, documentVerifyId := None,
                      verificationResult := None, classificationResult := None\<rparr>)"
  shows "docId (fst (dbUpsert uid dt p (createRow env uid dt (originalname f) (mimetype f) CLASSIFYING) w))
           = upsertId env uid dt w"
    and "classificationResult (fst (dbUpsert uid dt p (createRow env uid dt (originalname f) (mimetype f) CLASSIFYING) w))
           = None"
    and "find (ownedBy uid dt) (rows (snd (dbUpsert uid dt p (createRow env uid dt (originalname f) (mimetype f) CLASSIFYING) w)))
           = Some (fst (dbUpsert uid dt p (createRow env uid dt (originalname f) (mimetype f) CLASSIFYING) w))"
    and "events (snd (dbUpsert uid dt p (createRow env uid dt (originalname f) (mimetype f) CLASSIFYING) w))
           = events w @ [DbUpsert (upsertId env uid dt w)]"
proof -
  let ?new = "createRow env uid dt (originalname f) (mimetype f) CLASSIFYING"
  show id: "docId (fst (dbUpsert uid dt p ?new w)) = upsertId env uid dt w"
    by (rule dbUpsert_docId) (simp add: p_def)
  show "classificationResult (fst (dbUpsert uid dt p ?new w)) = None"
    by (simp add: dbUpsert_def p_def createRow_def split: option.splits)
  show "find (ownedBy uid dt) (rows (snd (dbUpsert uid dt p ?new w))) = Some (fst (dbUpsert uid dt p ?new w))"
    by (rule dbUpsert_find) (simp_all add: ownedBy_def createRow_def p_def)
  show "events (snd (dbUpsert uid dt p ?new w)) = events w @ [DbUpsert (upsertId env uid dt w)]"
    using events_dbUpsert [of p uid dt ?new w] id by (simp add: p_def)
qed


lemma classifyCatch_row:
  assumes "find (ownedBy uid dt) (rows w) = Some d" and "docId d = i"
  shows "find (ownedBy uid dt) (rows (snd (classifyCatch i w)))
           = Some (d\<lparr>status := CLASSIFICATION_FAILED,
                     errorMessage :=
                       Some ''Unable to classify the document. Please ensure the image is clear and try again.''\<rparr>)"
    and "events (snd (classifyCatch i w)) = events w @ [DbUpdate i]"
    and "httpStatus (fst (classifyCatch i w)) = 400"
proof -
  show "find (ownedBy uid dt) (rows (snd (classifyCatch i w)))
           = Some (d\<lparr>status := CLASSIFICATION_FAILED,
                     errorMessage :=
                       Some ''Unable to classify the document. Please ensure the image is clear and try again.''\<rparr>)"
    unfolding classifyCatch_def snd_conv
    using assms by (rule find_dbUpdate_id) (simp add: ownedBy_def)
  show "events (snd (classifyCatch i w)) = events w @ [DbUpdate i]"
    by (simp add: classifyCatch_def)
  show "httpStatus (fst (classifyCatch i w)) = 400"
    by (simp add: classifyCatch_def respond_def)
qed

lemma classifyBranch_classify_throws:
  assumes "classifyDocument env b (mimetype f) = Inl e"
  shows "\<exists>d. find (ownedBy uid dt) (rows (snd (classifyBranch env uid dt f b w))) = Some d
              \<and> status d = CLASSIFICATION_FAILED \<and> classificationResult d = None
              \<and> errorMessage d =
                  Some ''Unable to classify the document. Please ensure the image is clear and try again.''"
    and "events (snd (classifyBranch env uid dt f b w))
           = events w @ [DbUpsert (upsertId env uid dt w), CallClassify b (mimetype f),
                         DbUpdate (upsertId env uid dt w)]"
    and "httpStatus (fst (classifyBranch env uid dt f b w)) = 400"
proof -
  let ?i = "upsertId env uid dt w"
  let ?p = "\<lambda>d. d\<lparr>fileName := originalname f, mimeType := mimetype f, status := CLASSIFYING,
                      errorMessage := None, documentVerifyId := None,
                      verificationResult := None, classificationResult := None\<rparr>"
  let ?new = "createRow env uid dt (originalname f) (mimetype f) CLASSIFYING"
  let ?doc = "fst (dbUpsert uid dt ?p ?new w)"
  let ?w1 = "snd (dbUpsert uid dt ?p ?new w)"
  let ?w2 = "logEvent (CallClassify b (mimetype f)) ?w1"
  note u = classify_upsert [of uid dt f env w]
  have eq: "classifyBranch env uid dt f b w = classifyCatch ?i ?w2"
    using assms by (simp add: classifyBranch_def Let_def case_prod_beta u(1))
  have f2: "find (ownedBy uid dt) (rows ?w2) = Some ?doc" using u(3) by simp
  note c = classifyCatch_row [OF f2 u(1)]
  show "\<exists>d. find (ownedBy uid dt) (rows (snd (classifyBranch env uid dt f b w))) = Some d
              \<and> status d = CLASSIFICATION_FAILED \<and> classificationResult d = None
              \<and> errorMessage d =
                  Some ''Unable to classify the document. Please ensure the image is clear and try again.''"
    unfolding eq using c(1) u(2) by simp
  show "events (snd (classifyBranch env uid dt f b w))
           = events w @ [DbUpsert ?i, CallClassify b (mimetype f), DbUpdate ?i]"
    unfolding eq by (simp add: c(2) u(4))
  show "httpStatus (fst (classifyBranch env uid dt f b w)) = 400"
    unfolding eq by (rule c(3))
qed

lemma classifyBranch_rejected:
  assumes "classifyDocument env b (mimetype f) = Inr c"
    and "\<not> fst (classificationCheck dt c)"
  shows "\<exists>d. find (ownedBy uid dt) (rows (snd (classifyBranch env uid dt f b w))) = Some d
              \<and> status d = CLASSIFICATION_FAILED \<and> classificationResult d = Some c
              \<and> errorMessage d =
                  Some (''The uploaded document appears to be a '' @ getDocumentDescription c @
                        ''. Please upload a valid '' @ snd (classificationCheck dt c) @ ''.'')"
    and "events (snd (classifyBranch env uid dt f b w))
           = events w @ [DbUpsert (upsertId env uid dt w), CallClassify b (mimetype f),
                         DbUpdate (upsertId env uid dt w), DbUpdate (upsertId env uid dt w)]"
    and "httpStatus (fst (classifyBranch env uid dt f b w)) = 400"
proof -
  let ?i = "upsertId env uid dt w"
  let ?p = "\<lambda>d. d\<lparr>fileName := originalname f, mimeType := mimetype f, status := CLASSIFYING,
                      errorMessage := None, documentVerifyId := None,
                      verificationResult := None, classificationResult := None\<rparr>"
  let ?new = "createRow env uid dt (originalname f) (mimetype f) CLASSIFYING"
  let ?doc = "fst (dbUpsert uid dt ?p ?new w)"
  let ?w1 = "snd (dbUpsert uid dt ?p ?new w)"
  let ?w2 = "logEvent (CallClassify b (mimetype f)) ?w1"
  let ?w3 = "dbUpdate ?i (\<lambda>d. d\<lparr>classificationResult := Some c\<rparr>) ?w2"
  let ?rej = "\<lambda>d. d\<lparr>status := CLASSIFICATION_FAILED,
                        errorMessage :=
                          Some (''The uploaded document appears to be a '' @ getDocumentDescription c @
                                ''. Please upload a valid '' @ snd (classificationCheck dt c) @ ''.'')\<rparr>"
  note u = classify_upsert [of uid dt f env w]
  have eq: "snd (classifyBranch env uid dt f b w) = dbUpdate ?i ?rej ?w3"
    and st: "httpStatus (fst (classifyBranch env uid dt f b w)) = 400"
    using assms by (simp_all add: classifyBranch_def Let_def case_prod_beta u(1) respond_def)
  have f2: "find (ownedBy uid dt) (rows ?w2) = Some ?doc" using u(3) by simp
  have f3: "find (ownedBy uid dt) (rows ?w3) = Some (?doc\<lparr>classificationResult := Some c\<rparr>)"
    using f2 u(1) by (rule find_dbUpdate_id) (simp add: ownedBy_def)
  have f4: "find (ownedBy uid dt) (rows (dbUpdate ?i ?rej ?w3))
              = Some (?rej (?doc\<lparr>classificationResult := Some c\<rparr>))"
    using f3 by (rule find_dbUpdate_id) (simp_all add: ownedBy_def u(1))
  show "\<exists>d. find (ownedBy uid dt) (rows (snd (classifyBranch env uid dt f b w))) = Some d
              \<and> status d = CLASSIFICATION_FAILED \<and> classificationResult d = Some c
              \<and> errorMessage d =
                  Some (''The uploaded document appears to be a '' @ getDocumentDescription c @
                        ''. Please upload a valid '' @ snd (classificationCheck dt c) @ ''.'')"
    unfolding eq using f4 by simp
  show "events (snd (classifyBranch env uid dt f b w))
           = events w @ [DbUpsert ?i, CallClassify b (mimetype f), DbUpdate ?i, DbUpdate ?i]"
    unfolding eq by (simp add: u(4))
  show "httpStatus (fst (classifyBranch env uid dt f b w)) = 400" by (rule st)
qed


lemma classifyBranch_accepted:
  assumes "classifyDocument env b (mimetype f) = Inr c"
    and "fst (classificationCheck dt c)"
  shows "\<exists>d. find (ownedBy uid dt) (rows (snd (classifyBranch env uid dt f b w))) = Some d
              \<and> classificationResult d = Some c"
    and "\<exists>x. \<not> isSubmit x \<and>
           events (snd (classifyBranch env uid dt f b w))
             = events w @ [DbUpsert (upsertId env uid dt w), CallClassify b (mimetype f),
                           DbUpdate (upsertId env uid dt w), DbUpdate (upsertId env uid dt w),
                           CallSubmit b (mimetype f)
                             (orDefault (map_option code (cls_country c)) ''PHL'')
                             (orDefault (map_option code (cls_documentType c)) (documentTypeName dt))
                             (''doc-'' @ upsertId env uid dt w),
                           DbUpdate (upsertId env uid dt w), x]"
proof -
  let ?i = "upsertId env uid dt w"
  let ?p = "\<lambda>d. d\<lparr>fileName := originalname f, mimeType := mimetype f, status := CLASSIFYING,
                      errorMessage := None, documentVerifyId := None,
                      verificationResult := None, classificationResult := None\<rparr>"
  let ?new = "createRow env uid dt (originalname f) (mimetype f) CLASSIFYING"
  let ?doc = "fst (dbUpsert uid dt ?p ?new w)"
  let ?w1 = "snd (dbUpsert uid dt ?p ?new w)"
  let ?w2 = "logEvent (CallClassify b (mimetype f)) ?w1"
  let ?w3 = "dbUpdate ?i (\<lambda>d. d\<lparr>classificationResult := Some c\<rparr>) ?w2"
  let ?cc = "orDefault (map_option code (cls_country c)) ''PHL''"
  let ?tc = "orDefault (map_option code (cls_documentType c)) (documentTypeName dt)"
  let ?s = "submitDocumentForVerification env ?i b (mimetype f) ?cc ?tc ?w3"
  let ?goal1 = "\<exists>d. find (ownedBy uid dt) (rows (snd (classifyBranch env uid dt f b w))) = Some d
              \<and> classificationResult d = Some c"
  let ?goal2 = "\<exists>x. \<not> isSubmit x \<and>
           events (snd (classifyBranch env uid dt f b w))
             = events w @ [DbUpsert ?i, CallClassify b (mimetype f), DbUpdate ?i, DbUpdate ?i,
                           CallSubmit b (mimetype f) ?cc ?tc (''doc-'' @ ?i), DbUpdate ?i, x]"
  note u = classify_upsert [of uid dt f env w]
  have f2: "find (ownedBy uid dt) (rows ?w2) = Some ?doc" using u(3) by simp
  have f3: "find (ownedBy uid dt) (rows ?w3) = Some (?doc\<lparr>classificationResult := Some c\<rparr>)"
    using f2 u(1) by (rule find_dbUpdate_id) (simp add: ownedBy_def)
  have i3: "docId (?doc\<lparr>classificationResult := Some c\<rparr>) = ?i" by (simp add: u(1))
  have "?goal1 \<and> ?goal2"
  proof (cases "submitForVerification env b (mimetype f) ?cc ?tc (''doc-'' @ ?i)")
    case (Inl e)
    note s = submit_fails [OF f3 i3 Inl]
    obtain w4 where sd: "?s = (Some e, w4)" using s(1) by (cases ?s) auto
    have f4: "find (ownedBy uid dt) (rows w4)
                = Some (?doc\<lparr>classificationResult := Some c, status := FAILED,
                        errorMessage := Some ''Failed to submit document for verification. Please try again.''\<rparr>)"
      using s(2) sd by simp
    have i4: "docId (?doc\<lparr>classificationResult := Some c, status := FAILED,
                        errorMessage := Some ''Failed to submit document for verification. Please try again.''\<rparr>) = ?i"
      by (simp add: u(1))
    have e4: "events w4 = events ?w3 @ [DbUpdate ?i, CallSubmit b (mimetype f) ?cc ?tc (''doc-'' @ ?i), DbUpdate ?i]"
      using s(3) sd by simp
    have eq: "classifyBranch env uid dt f b w = classifyCatch ?i w4"
      using assms by (simp add: classifyBranch_def Let_def case_prod_beta u(1) sd)
    note k = classifyCatch_row [OF f4 i4]
    have ?goal1 unfolding eq using k(1) by simp
    moreover have "events (snd (classifyBranch env uid dt f b w))
             = events w @ [DbUpsert ?i, CallClassify b (mimetype f), DbUpdate ?i, DbUpdate ?i,
                           CallSubmit b (mimetype f) ?cc ?tc (''doc-'' @ ?i), DbUpdate ?i, DbUpdate ?i]"
      unfolding eq by (simp add: k(2) e4 u(4))
    then have ?goal2 by simp
    ultimately show ?thesis by simp
  next
    case (Inr r)
    note s = submit_succeeds [OF f3 i3 Inr]
    obtain w4 where sd: "?s = (None, w4)" using s(1) by (cases ?s) auto
    have f4: "find (ownedBy uid dt) (rows w4)
                = Some (?doc\<lparr>classificationResult := Some c, status := PROCESSING,
                        documentVerifyId := Some (sr_documentVerifyId r)\<rparr>)"
      using s(2) sd by simp
    have e4: "events w4 = events ?w3 @ [DbUpdate ?i, CallSubmit b (mimetype f) ?cc ?tc (''doc-'' @ ?i), DbUpdate ?i]"
      using s(3) sd by simp
    have eq: "snd (classifyBranch env uid dt f b w) = logEvent DbFindUnique w4"
      using assms by (simp add: classifyBranch_def Let_def case_prod_beta u(1) sd findUniqueById_def)
    have ?goal1 unfolding eq using f4 by simp
    moreover have "events (snd (classifyBranch env uid dt f b w))
             = events w @ [DbUpsert ?i, CallClassify b (mimetype f), DbUpdate ?i, DbUpdate ?i,
                           CallSubmit b (mimetype f) ?cc ?tc (''doc-'' @ ?i), DbUpdate ?i, DbFindUnique]"
      unfolding eq by (simp add: e4 u(4))
    then have ?goal2 by simp
    ultimately show ?thesis by simp
  qed
  then show ?goal1 and ?goal2 by simp_all
qed


lemma parse_documentTypeName: "parseDocumentType (Some (documentTypeName dt)) = Some dt"
  by (cases dt) (simp_all add: parseDocumentType_def)

lemma getDocumentDescription_names:
  "getDocumentDescription c
     = orDefault (map_option name (cls_country c)) ''Unknown Country'' @ '' '' @
       orDefault (map_option name (cls_documentType c)) ''Unknown Document''"
  by (simp add: getDocumentDescription_def Let_def)

text \<open>
  C6. For a passport or driver's-licence upload that reaches the classify step and whose
  classify call returns \<open>c\<close>: submit is called exactly when the country code of \<open>c\<close> is
  \<^verbatim>\<open>PHL\<close> and its document-type code is the name of the uploaded category. When that
  rule fails, submit is not called, the answer is 400 and the row of the pair is
  \<^verbatim>\<open>CLASSIFICATION_FAILED\<close> with a message made of the detected country name and
  document-type name (or \<^verbatim>\<open>Unknown Country\<close>, \<^verbatim>\<open>Unknown Document\<close> where absent or
  empty).
\<close>

theorem id_upload_classification_rule:
  assumes "req_file req = Some f" and "body_documentType req = Some (documentTypeName dt)"
    and "isIdDocument dt"
    and "mimetype f \<in> set imageMimes" and "fileSize f \<le> 5 * 1024 * 1024"
    and "\<forall>d. find (ownedBy uid dt) (rows w) = Some d \<longrightarrow> status d \<noteq> DONE"
    and "classifyDocument env (toBase64 env (buffer f)) (mimetype f) = Inr c"
  shows "((filter isSubmit (requestEvents w (snd (uploadHandler env uid req w))) \<noteq> [])
            = (map_option code (cls_country c) = Some ''PHL''
               \<and> map_option code (cls_documentType c) = Some (documentTypeName dt)))
         \<and> (\<not> (map_option code (cls_country c) = Some ''PHL''
                \<and> map_option code (cls_documentType c) = Some (documentTypeName dt)) \<longrightarrow>
              filter isSubmit (requestEvents w (snd (uploadHandler env uid req w))) = []
              \<and> httpStatus (fst (uploadHandler env uid req w)) = 400
              \<and> (\<exists>d. find (ownedBy uid dt) (rows (snd (uploadHandler env uid req w))) = Some d
                     \<and> status d = CLASSIFICATION_FAILED
                     \<and> errorMessage d =
                         Some (''The uploaded document appears to be a '' @
                               orDefault (map_option name (cls_country c)) ''Unknown Country'' @ '' '' @
                               orDefault (map_option name (cls_documentType c)) ''Unknown Document'' @
                               ''. Please upload a valid '' @
                               (if dt = PASSPORT then ''Philippines Passport''
                                else ''Philippines Driver's Licence'') @ ''.'')))"
proof -
  let ?b = "toBase64 env (buffer f)"
  let ?w0 = "logEvent DbFindUnique w"
  let ?rule = "map_option code (cls_country c) = Some ''PHL''
               \<and> map_option code (cls_documentType c) = Some (documentTypeName dt)"
  let ?w' = "snd (uploadHandler env uid req w)"
  have pd: "parseDocumentType (body_documentType req) = Some dt"
    by (simp add: assms(2) parse_documentTypeName)
  have up: "uploadHandler env uid req w = classifyBranch env uid dt f ?b ?w0"
    using assms(1) pd assms(3-6) by (rule upload_id_passes)
  note chk = classificationCheck_id [OF assms(3), of c]
  show ?thesis
  proof (cases ?rule)
    case True
    then have ok: "fst (classificationCheck dt c)" by (simp add: chk(1))
    from classifyBranch_accepted(2) [OF assms(7) ok, of uid ?w0]
    obtain x where x: "\<not> isSubmit x"
      and ev: "events (snd (classifyBranch env uid dt f ?b ?w0))
             = events ?w0 @ [DbUpsert (upsertId env uid dt ?w0), CallClassify ?b (mimetype f),
                           DbUpdate (upsertId env uid dt ?w0), DbUpdate (upsertId env uid dt ?w0),
                           CallSubmit ?b (mimetype f)
                             (orDefault (map_option code (cls_country c)) ''PHL'')
                             (orDefault (map_option code (cls_documentType c)) (documentTypeName dt))
                             (''doc-'' @ upsertId env uid dt ?w0),
                           DbUpdate (upsertId env uid dt ?w0), x]"
      by blast
    have "requestEvents w ?w'
            = [DbFindUnique, DbUpsert (upsertId env uid dt ?w0), CallClassify ?b (mimetype f),
               DbUpdate (upsertId env uid dt ?w0), DbUpdate (upsertId env uid dt ?w0),
               CallSubmit ?b (mimetype f)
                 (orDefault (map_option code (cls_country c)) ''PHL'')
                 (orDefault (map_option code (cls_documentType c)) (documentTypeName dt))
                 (''doc-'' @ upsertId env uid dt ?w0),
               DbUpdate (upsertId env uid dt ?w0), x]"
      by (rule requestEvents_append) (simp add: up ev)
    then have "filter isSubmit (requestEvents w ?w') \<noteq> []" by simp
    with True show ?thesis by simp
  next
    case False
    then have no: "\<not> fst (classificationCheck dt c)" by (simp add: chk(1))
    note r = classifyBranch_rejected [OF assms(7) no, of uid ?w0]
    have "requestEvents w ?w'
            = [DbFindUnique, DbUpsert (upsertId env uid dt ?w0), CallClassify ?b (mimetype f),
               DbUpdate (upsertId env uid dt ?w0), DbUpdate (upsertId env uid dt ?w0)]"
      by (rule requestEvents_append) (simp add: up r(2))
    then have none: "filter isSubmit (requestEvents w ?w') = []" by simp
    have st: "httpStatus (fst (uploadHandler env uid req w)) = 400"
      unfolding up by (rule r(3))
    from r(1) obtain d where d: "find (ownedBy uid dt) (rows ?w') = Some d"
      "status d = CLASSIFICATION_FAILED"
      "errorMessage d =
         Some (''The uploaded document appears to be a '' @ getDocumentDescription c @
               ''. Please upload a valid '' @ snd (classificationCheck dt c) @ ''.'')"
      unfolding up by blast
    have msg: "errorMessage d =
                         Some (''The uploaded document appears to be a '' @
                               orDefault (map_option name (cls_country c)) ''Unknown Country'' @ '' '' @
                               orDefault (map_option name (cls_documentType c)) ''Unknown Document'' @
                               ''. Please upload a valid '' @
                               (if dt = PASSPORT then ''Philippines Passport''
                                else ''Philippines Driver's Licence'') @ ''.'')"
      unfolding d(3) chk(2) getDocumentDescription_names by simp
    from False none st d(1,2) msg show ?thesis by blast
  qed
qed


theorem id_upload_classification_rule_witness:
  "filter isSubmit
     (requestEvents emptyWorld
        (snd (uploadHandler (onlineEnv phlPassport V_DONE) ''alice''
                (uploadOf jpegFile ''PASSPORT'') emptyWorld))) \<noteq> []
   \<and> filter isSubmit
       (requestEvents emptyWorld
          (snd (uploadHandler (onlineEnv phlPassport V_DONE) ''alice''
                  (uploadOf jpegFile ''DRIVERS_LICENCE'') emptyWorld))) = []
   \<and> (\<exists>d. find (ownedBy ''alice'' DRIVERS_LICENCE)
              (rows (snd (uploadHandler (onlineEnv phlPassport V_DONE) ''alice''
                            (uploadOf jpegFile ''DRIVERS_LICENCE'') emptyWorld))) = Some d
          \<and> status d = CLASSIFICATION_FAILED
          \<and> errorMessage d =
              Some ''The uploaded document appears to be a Philippines Passport. Please upload a valid Philippines Driver's Licence.'')"
proof -
  let ?env = "onlineEnv phlPassport V_DONE"
  have f: "req_file (uploadOf jpegFile t) = Some jpegFile" for t
    by (simp add: uploadOf_def)
  have tp: "body_documentType (uploadOf jpegFile ''PASSPORT'') = Some (documentTypeName PASSPORT)"
    and td: "body_documentType (uploadOf jpegFile ''DRIVERS_LICENCE'') = Some (documentTypeName DRIVERS_LICENCE)"
    by (simp_all add: uploadOf_def)
  have ip: "isIdDocument PASSPORT" and idl: "isIdDocument DRIVERS_LICENCE"
    by (simp_all add: isIdDocument_def)
  have m: "mimetype jpegFile \<in> set imageMimes" and sz: "fileSize jpegFile \<le> 5 * 1024 * 1024"
    by (simp_all add: jpegFile_def imageMimes_def)
  have nd: "\<forall>d. find (ownedBy ''alice'' dt) (rows emptyWorld) = Some d \<longrightarrow> status d \<noteq> DONE" for dt
    by (simp add: emptyWorld_def)
  have c: "classifyDocument ?env (toBase64 ?env (buffer jpegFile)) (mimetype jpegFile) = Inr phlPassport"
    by (simp add: onlineEnv_def)
  note p = id_upload_classification_rule [OF f tp ip m sz nd c]
  note d = id_upload_classification_rule [OF f td idl m sz nd c]
  have rp: "map_option code (cls_country phlPassport) = Some ''PHL''
            \<and> map_option code (cls_documentType phlPassport) = Some (documentTypeName PASSPORT)"
    by (simp add: phlPassport_def)
  have rd: "\<not> (map_option code (cls_country phlPassport) = Some ''PHL''
            \<and> map_option code (cls_documentType phlPassport) = Some (documentTypeName DRIVERS_LICENCE))"
    by (simp add: phlPassport_def)
  have msg: "''The uploaded document appears to be a '' @
               orDefault (map_option name (cls_country phlPassport)) ''Unknown Country'' @ '' '' @
               orDefault (map_option name (cls_documentType phlPassport)) ''Unknown Document'' @
               ''. Please upload a valid '' @
               (if DRIVERS_LICENCE = PASSPORT then ''Philippines Passport''
                else ''Philippines Driver's Licence'') @ ''.''
             = ''The uploaded document appears to be a Philippines Passport. Please upload a valid Philippines Driver's Licence.''"
    by (simp add: phlPassport_def orDefault_def)
  from p rp have a: "filter isSubmit
     (requestEvents emptyWorld
        (snd (uploadHandler ?env ''alice'' (uploadOf jpegFile ''PASSPORT'') emptyWorld))) \<noteq> []"
    by blast
  from d rd show ?thesis unfolding msg using a by blast
qed

text \<open>
  C8. When the classify call itself throws there is no payload, and nothing is stored:
  the first passport upload into an empty store, with the classifier down, leaves the
  row with no classification payload.
\<close>

theorem classify_failure_stores_no_payload:
  "classifyDocument offlineEnv (toBase64 offlineEnv (buffer jpegFile)) (mimetype jpegFile)
     = Inl ''Classification failed: 503''
   \<and> map_option classificationResult
       (find (ownedBy ''alice'' PASSPORT)
          (rows (snd (uploadHandler offlineEnv ''alice'' (uploadOf jpegFile ''PASSPORT'') emptyWorld))))
     = Some None
   \<and> map_option status
       (find (ownedBy ''alice'' PASSPORT)
          (rows (snd (uploadHandler offlineEnv ''alice'' (uploadOf jpegFile ''PASSPORT'') emptyWorld))))
     = Some CLASSIFICATION_FAILED"
proof -
  have c: "classifyDocument offlineEnv (toBase64 offlineEnv (buffer jpegFile)) (mimetype jpegFile)
             = Inl ''Classification failed: 503''"
    by (simp add: offlineEnv_def)
  have up: "uploadHandler offlineEnv ''alice'' (uploadOf jpegFile ''PASSPORT'') emptyWorld
              = classifyBranch offlineEnv ''alice'' PASSPORT jpegFile
                  (toBase64 offlineEnv (buffer jpegFile)) (logEvent DbFindUnique emptyWorld)"
    by (rule upload_id_passes)
       (simp_all add: uploadOf_def parseDocumentType_def isIdDocument_def jpegFile_def
          imageMimes_def emptyWorld_def)
  from classifyBranch_classify_throws(1) [OF c, of "''alice''" PASSPORT "logEvent DbFindUnique emptyWorld"]
  show ?thesis unfolding up using c by auto
qed

text \<open>
  C8, amended. For a passport or driver's-licence upload that reaches the classify step:
  when the classify call returns a payload, the row of the pair holds that payload at
  the end of the request, whether the validation rule accepts or rejects it and whether
  or not the later submission succeeds; when the classify call throws, the row ends
  \<^verbatim>\<open>CLASSIFICATION_FAILED\<close> with the generic message and no classification payload.
\<close>

theorem classification_payload_persisted_when_returned:
  assumes "req_file req = Some f" and "body_documentType req = Some (documentTypeName dt)"
    and "isIdDocument dt"
    and "mimetype f \<in> set imageMimes" and "fileSize f \<le> 5 * 1024 * 1024"
    and "\<forall>d. find (ownedBy uid dt) (rows w) = Some d \<longrightarrow> status d \<noteq> DONE"
  shows "(\<forall>c. classifyDocument env (toBase64 env (buffer f)) (mimetype f) = Inr c \<longrightarrow>
              (\<exists>d. find (ownedBy uid dt) (rows (snd (uploadHandler env uid req w))) = Some d
                   \<and> classificationResult d = Some c))
         \<and> (\<forall>e. classifyDocument env (toBase64 env (buffer f)) (mimetype f) = Inl e \<longrightarrow>
              (\<exists>d. find (ownedBy uid dt) (rows (snd (uploadHandler env uid req w))) = Some d
                   \<and> classificationResult d = None
                   \<and> status d = CLASSIFICATION_FAILED
                   \<and> errorMessage d =
                       Some ''Unable to classify the document. Please ensure the image is clear and try again.''))"
proof -
  let ?b = "toBase64 env (buffer f)"
  let ?w0 = "logEvent DbFindUnique w"
  have pd: "parseDocumentType (body_documentType req) = Some dt"
    by (simp add: assms(2) parse_documentTypeName)
  have up: "uploadHandler env uid req w = classifyBranch env uid dt f ?b ?w0"
    using assms(1) pd assms(3-6) by (rule upload_id_passes)
  have returned: "\<exists>d. find (ownedBy uid dt) (rows (snd (uploadHandler env uid req w))) = Some d
                   \<and> classificationResult d = Some c"
    if c: "classifyDocument env ?b (mimetype f) = Inr c" for c
  proof (cases "fst (classificationCheck dt c)")
    case True
    from classifyBranch_accepted(1) [OF c True, of uid ?w0] show ?thesis unfolding up .
  next
    case False
    from classifyBranch_rejected(1) [OF c False, of uid ?w0] show ?thesis unfolding up by blast
  qed
  have thrown: "\<exists>d. find (ownedBy uid dt) (rows (snd (uploadHandler env uid req w))) = Some d
                   \<and> classificationResult d = None
                   \<and> status d = CLASSIFICATION_FAILED
                   \<and> errorMessage d =
                       Some ''Unable to classify the document. Please ensure the image is clear and try again.''"
    if e: "classifyDocument env ?b (mimetype f) = Inl e" for e
    using classifyBranch_classify_throws(1) [OF e, of uid dt ?w0] unfolding up by blast
  from returned thrown show ?thesis by blast
qed

theorem classification_payload_persisted_when_returned_witness:
  "(\<exists>d. find (ownedBy ''alice'' DRIVERS_LICENCE)
           (rows (snd (uploadHandler (onlineEnv phlPassport V_DONE) ''alice''
                         (uploadOf jpegFile ''DRIVERS_LICENCE'') emptyWorld))) = Some d
        \<and> classificationResult d = Some phlPassport)
   \<and> (\<exists>d. find (ownedBy ''alice'' DRIVERS_LICENCE)
             (rows (snd (uploadHandler offlineEnv ''alice''
                           (uploadOf jpegFile ''DRIVERS_LICENCE'') emptyWorld))) = Some d
          \<and> classificationResult d = None \<and> status d = CLASSIFICATION_FAILED)"
proof -
  have f: "req_file (uploadOf jpegFile ''DRIVERS_LICENCE'') = Some jpegFile"
    and td: "body_documentType (uploadOf jpegFile ''DRIVERS_LICENCE'') = Some (documentTypeName DRIVERS_LICENCE)"
    by (simp_all add: uploadOf_def)
  have idl: "isIdDocument DRIVERS_LICENCE" by (simp add: isIdDocument_def)
  have m: "mimetype jpegFile \<in> set imageMimes" and sz: "fileSize jpegFile \<le> 5 * 1024 * 1024"
    by (simp_all add: jpegFile_def imageMimes_def)
  have nd: "\<forall>d. find (ownedBy ''alice'' DRIVERS_LICENCE) (rows emptyWorld) = Some d \<longrightarrow> status d \<noteq> DONE"
    by (simp add: emptyWorld_def)
  have c1: "classifyDocument (onlineEnv phlPassport V_DONE)
              (toBase64 (onlineEnv phlPassport V_DONE) (buffer jpegFile)) (mimetype jpegFile)
            = Inr phlPassport"
    by (simp add: onlineEnv_def)
  have c2: "classifyDocument offlineEnv (toBase64 offlineEnv (buffer jpegFile)) (mimetype jpegFile)
            = Inl ''Classification failed: 503''"
    by (simp add: offlineEnv_def)
  from classification_payload_persisted_when_returned
         [OF f td idl m sz nd, of "onlineEnv phlPassport V_DONE"] c1
  have a: "\<exists>d. find (ownedBy ''alice'' DRIVERS_LICENCE)
           (rows (snd (uploadHandler (onlineEnv phlPassport V_DONE) ''alice''
                         (uploadOf jpegFile ''DRIVERS_LICENCE'') emptyWorld))) = Some d
        \<and> classificationResult d = Some phlPassport"
    by blast
  from classification_payload_persisted_when_returned [OF f td idl m sz nd, of offlineEnv] c2
  have b: "\<exists>d. find (ownedBy ''alice'' DRIVERS_LICENCE)
             (rows (snd (uploadHandler offlineEnv ''alice''
                           (uploadOf jpegFile ''DRIVERS_LICENCE'') emptyWorld))) = Some d
          \<and> classificationResult d = None \<and> status d = CLASSIFICATION_FAILED"
    by blast
  from a b show ?thesis by simp
qed

end
